theory Spec2Isabelle
  imports Complex_Main
begin

section \<open>Python library operations used by the scripts\<close>

text \<open>
  Sensor values are finite Python numbers; each is modelled by the real number it stands
  for. Every library call that can raise returns a sum, with the exception on the left.
\<close>

datatype py_error =
    ValueError | StatisticsError | IndexError | KeyError | TypeError | AttributeError
  | OverflowError | UnicodeDecodeError | JSONDecodeError | OSError

subsection \<open>Floats\<close>

text \<open>
  A float is an IEEE 754 binary64 number: a finite one, an infinity or NaN. The float
  nearest to a real number \<open>x\<close> is found on the grid of the binade of \<open>x\<close>
  (53 significant bits, the grid of the subnormal numbers below \<open>2 ^ (- 1022)\<close>),
  a tie going to the even neighbour; a result of magnitude \<open>2 ^ 1024\<close> or more is
  an infinity.
\<close>

datatype py_float = Finite real | PosInf | NegInf | NaN

definition pow2 :: "int \<Rightarrow> real" where
  "pow2 k = (if 0 \<le> k then 2 ^ nat k else 1 / 2 ^ nat (- k))"

definition float_exponent :: "real \<Rightarrow> int" where
  "float_exponent x = \<lfloor>log 2 \<bar>x\<bar>\<rfloor>"

definition round_half_even :: "real \<Rightarrow> int" where
  "round_half_even y =
     (let n = \<lfloor>y\<rfloor>
      in if y - of_int n < 1 / 2 then n
         else if 1 / 2 < y - of_int n then n + 1
         else if even n then n else n + 1)"

definition round_double :: "real \<Rightarrow> real" where
  "round_double x =
     (if x = 0 then 0
      else let q = max (float_exponent x) (- 1022) - 52
           in of_int (round_half_even (x / pow2 q)) * pow2 q)"

definition float_round :: "real \<Rightarrow> py_float" where
  "float_round x =
     (let r = round_double x
      in if 2 ^ 1024 \<le> \<bar>r\<bar> then (if 0 < x then PosInf else NegInf) else Finite r)"

text \<open>\<^verbatim>\<open>x + y\<close> and \<^verbatim>\<open>x - y\<close> on finite floats: the exact result, rounded.\<close>

definition float_add :: "real \<Rightarrow> real \<Rightarrow> py_float" where
  "float_add x y = float_round (x + y)"

definition float_sub :: "real \<Rightarrow> real \<Rightarrow> py_float" where
  "float_sub x y = float_round (x - y)"

text \<open>\<^verbatim>\<open>a < b\<close> on floats: false as soon as one of them is NaN.\<close>

fun float_less :: "py_float \<Rightarrow> py_float \<Rightarrow> bool" where
  "float_less NaN b = False"
| "float_less a NaN = False"
| "float_less (Finite a) (Finite b) = (a < b)"
| "float_less (Finite a) PosInf = True"
| "float_less (Finite a) NegInf = False"
| "float_less PosInf b = False"
| "float_less NegInf NegInf = False"
| "float_less NegInf b = True"

text \<open>The literal \<^verbatim>\<open>0.1\<close>: the float nearest to one tenth.\<close>

definition float_0_1 :: real where
  "float_0_1 = 3602879701896397 / 36028797018963968"

subsection \<open>Containers and statistics\<close>

text \<open>
  \<^verbatim>\<open>deque(maxlen=m).append(x)\<close>: the item is added on the right; when the deque is
  then longer than \<open>m\<close> the leftmost item is removed. (A negative \<open>maxlen\<close> is refused by
  the constructor of the deque, so the capacity is a natural number.)
\<close>

definition deque_append :: "nat \<Rightarrow> 'a list \<Rightarrow> 'a \<Rightarrow> 'a list" where
  "deque_append maxlen d x =
     (let d' = d @ [x] in if maxlen < length d' then tl d' else d')"

text \<open>\<^verbatim>\<open>max(xs)\<close> and \<^verbatim>\<open>min(xs)\<close>: ValueError on an empty sequence.\<close>

fun py_max :: "real list \<Rightarrow> py_error + real" where
  "py_max [] = Inl ValueError"
| "py_max (x # xs) = Inr (foldl (\<lambda>m y. if m < y then y else m) x xs)"

fun py_min :: "real list \<Rightarrow> py_error + real" where
  "py_min [] = Inl ValueError"
| "py_min (x # xs) = Inr (foldl (\<lambda>m y. if y < m then y else m) x xs)"

text \<open>\<^verbatim>\<open>statistics.mean(xs)\<close>: StatisticsError on an empty sequence.\<close>

definition mean :: "real list \<Rightarrow> py_error + real" where
  "mean xs = (if xs = [] then Inl StatisticsError
              else Inr (sum_list xs / real (length xs)))"

text \<open>
  The sample standard deviation as a real number: the square root of the sum of squared
  deviations from the mean over \<open>n - 1\<close>.
\<close>

definition sample_deviation :: "real list \<Rightarrow> real" where
  "sample_deviation xs =
     (let xbar = sum_list xs / real (length xs)
      in sqrt (sum_list (map (\<lambda>x. (x - xbar)\<^sup>2) xs) / real (length xs - 1)))"

text \<open>
  \<^verbatim>\<open>statistics.stdev(xs)\<close>, as in CPython 3.11: StatisticsError on fewer than two
  values; otherwise the variance is computed exactly and its square root is rounded once
  to a float, and the conversion raises OverflowError when the rounded root is beyond the
  range of a float.
\<close>

definition stdev :: "real list \<Rightarrow> py_error + real" where
  "stdev xs =
     (if length xs < 2 then Inl StatisticsError
      else let r = round_double (sample_deviation xs)
           in if 2 ^ 1024 \<le> r then Inl OverflowError else Inr r)"

text \<open>\<^verbatim>\<open>xs[i]\<close>: negative indices count from the end, IndexError out of range.\<close>

definition py_index :: "'a list \<Rightarrow> int \<Rightarrow> py_error + 'a" where
  "py_index xs i =
     (if 0 \<le> i \<and> nat i < length xs then Inr (xs ! nat i)
      else if i < 0 \<and> nat (- i) \<le> length xs then Inr (xs ! (length xs - nat (- i)))
      else Inl IndexError)"

text \<open>\<^verbatim>\<open>xs[-k:]\<close> for a positive \<open>k\<close>: the last \<open>k\<close> items, or all of them.\<close>

definition py_last_slice :: "nat \<Rightarrow> 'a list \<Rightarrow> 'a list" where
  "py_last_slice k xs = drop (length xs - k) xs"

section \<open>BreathingAnalyzer (enhanced\_belt\_analysis.py)\<close>

record analyzer =
  window_size :: nat
  force_history :: "real list"
  resp_rate_history :: "real list"
  timestamps :: "real list"
  last_breath_time :: real
  breath_count :: nat
  session_start :: real
  breathing_depth :: real
  breathing_regularity :: real
  breathing_intensity :: real

text \<open>The constructor; \<open>now\<close> is what \<^verbatim>\<open>time.time()\<close> returns there.\<close>

definition init_analyzer :: "nat \<Rightarrow> real \<Rightarrow> analyzer" where
  "init_analyzer ws now =
     \<lparr> window_size = ws, force_history = [], resp_rate_history = [], timestamps = [],
       last_breath_time = 0, breath_count = 0, session_start = now,
       breathing_depth = 0, breathing_regularity = 0, breathing_intensity = 0 \<rparr>"

definition update_breathing_depth :: "analyzer \<Rightarrow> py_error + analyzer" where
  "update_breathing_depth st =
     (if length (force_history st) < 10 then Inr st
      else case py_max (force_history st) of
             Inl e \<Rightarrow> Inl e
           | Inr mx \<Rightarrow> (case py_min (force_history st) of
                         Inl e \<Rightarrow> Inl e
                       | Inr mn \<Rightarrow> Inr (st\<lparr>breathing_depth := mx - mn\<rparr>)))"

text \<open>The bare \<^verbatim>\<open>except:\<close> catches whatever the body of the \<^verbatim>\<open>try\<close> raises.\<close>

definition update_breathing_regularity :: "analyzer \<Rightarrow> analyzer" where
  "update_breathing_regularity st =
     (if length (resp_rate_history st) < 10 then st
      else case stdev (resp_rate_history st) of
             Inr std_dev \<Rightarrow> st\<lparr>breathing_regularity := max 0 (1 - std_dev / 10)\<rparr>
           | Inl e \<Rightarrow> st\<lparr>breathing_regularity := 0\<rparr>)"

definition update_breathing_intensity :: "analyzer \<Rightarrow> py_error + analyzer" where
  "update_breathing_intensity st =
     (if length (force_history st) < 5 then Inr st
      else case mean (map abs (force_history st)) of
             Inl e \<Rightarrow> Inl e
           | Inr m \<Rightarrow> Inr (st\<lparr>breathing_intensity := m\<rparr>))"

text \<open>A sample is the triple (force, resp\_rate, timestamp).\<close>

type_synonym sample = "real \<times> real \<times> real"

definition sample_force :: "sample \<Rightarrow> real" where
  "sample_force s = fst s"

definition sample_resp_rate :: "sample \<Rightarrow> real" where
  "sample_resp_rate s = fst (snd s)"

definition sample_timestamp :: "sample \<Rightarrow> real" where
  "sample_timestamp s = snd (snd s)"

definition append_sample :: "analyzer \<Rightarrow> sample \<Rightarrow> analyzer" where
  "append_sample st s =
     st\<lparr> force_history := deque_append (window_size st) (force_history st) (sample_force s),
         resp_rate_history :=
           deque_append (window_size st) (resp_rate_history st) (sample_resp_rate s),
         timestamps := deque_append (window_size st) (timestamps st) (sample_timestamp s) \<rparr>"

definition add_sample :: "analyzer \<Rightarrow> sample \<Rightarrow> py_error + analyzer" where
  "add_sample st s =
     (case update_breathing_depth (append_sample st s) of
        Inl e \<Rightarrow> Inl e
      | Inr st1 \<Rightarrow> update_breathing_intensity (update_breathing_regularity st1))"

text \<open>A sequence of calls of \<^verbatim>\<open>add_sample\<close>; an exception ends it.\<close>

fun add_samples :: "analyzer \<Rightarrow> sample list \<Rightarrow> py_error + analyzer" where
  "add_samples st [] = Inr st"
| "add_samples st (s # ss) =
     (case add_sample st s of Inl e \<Rightarrow> Inl e | Inr st' \<Rightarrow> add_samples st' ss)"

text \<open>
  \<^verbatim>\<open>_calculate_trend\<close>: \<^verbatim>\<open>recent[-1] > recent[0] + 0.1\<close> compares with the float sum,
  \<^verbatim>\<open>recent[-1] < recent[0] - 0.1\<close> with the float difference.
\<close>

definition calculate_trend :: "real list \<Rightarrow> py_error + int" where
  "calculate_trend data =
     (if length data < 5 then Inr 0
      else let recent = py_last_slice 5 data
           in case py_index recent (- 1) of
                Inl e \<Rightarrow> Inl e
              | Inr l \<Rightarrow>
                  (case py_index recent 0 of
                     Inl e \<Rightarrow> Inl e
                   | Inr f \<Rightarrow>
                       if float_less (float_add f float_0_1) (Finite l) then Inr 1
                       else if float_less (Finite l) (float_sub f float_0_1) then Inr (- 1)
                       else Inr 0))"

record metrics =
  m_breathing_depth :: real
  m_breathing_regularity :: real
  m_breathing_intensity :: real
  m_session_duration :: real
  m_avg_resp_rate :: real
  m_force_trend :: int
  m_resp_rate_trend :: int

text \<open>\<^verbatim>\<open>get_derived_metrics\<close>; \<open>now\<close> is what \<^verbatim>\<open>time.time()\<close> returns in the call.\<close>

definition get_derived_metrics :: "real \<Rightarrow> analyzer \<Rightarrow> py_error + metrics" where
  "get_derived_metrics now st =
     (case (if resp_rate_history st \<noteq> [] then mean (resp_rate_history st) else Inr 0) of
        Inl e \<Rightarrow> Inl e
      | Inr avg \<Rightarrow>
          (case calculate_trend (force_history st) of
             Inl e \<Rightarrow> Inl e
           | Inr ft \<Rightarrow>
               (case calculate_trend (resp_rate_history st) of
                  Inl e \<Rightarrow> Inl e
                | Inr rt \<Rightarrow>
                    Inr \<lparr> m_breathing_depth = breathing_depth st,
                          m_breathing_regularity = breathing_regularity st,
                          m_breathing_intensity = breathing_intensity st,
                          m_session_duration = now - session_start st,
                          m_avg_resp_rate = avg,
                          m_force_trend = ft,
                          m_resp_rate_trend = rt \<rparr>)))"

text \<open>
  The uniform shift of the force of a sample by a caller: the float sum of the force and
  the constant. An infinite sum is no sample of this model.
\<close>

definition shift_force :: "real \<Rightarrow> sample \<Rightarrow> sample option" where
  "shift_force c s =
     (case float_add (sample_force s) c of
        Finite r \<Rightarrow> Some (r, sample_resp_rate s, sample_timestamp s)
      | PosInf \<Rightarrow> None
      | NegInf \<Rightarrow> None
      | NaN \<Rightarrow> None)"

section \<open>Values parsed from JSON\<close>

text \<open>
  What \<^verbatim>\<open>json.loads\<close> returns: None, a bool, an int, a float (the parser also accepts
  NaN and the infinities), a str, a list or a dict. A dict is an association list, looked
  up with \<^const>\<open>map_of\<close>.
\<close>

datatype pyval =
    PNone
  | PBool bool
  | PInt int
  | PFloat py_float
  | PStr string
  | PList "pyval list"
  | PDict "(string \<times> pyval) list"

text \<open>\<^verbatim>\<open>v > 0\<close>: a bool compares as the int it is; TypeError on a value that is no number.\<close>

fun py_gt_zero :: "pyval \<Rightarrow> py_error + bool" where
  "py_gt_zero (PBool b) = Inr b"
| "py_gt_zero (PInt i) = Inr (0 < i)"
| "py_gt_zero (PFloat (Finite r)) = Inr (0 < r)"
| "py_gt_zero (PFloat PosInf) = Inr True"
| "py_gt_zero (PFloat NegInf) = Inr False"
| "py_gt_zero (PFloat NaN) = Inr False"
| "py_gt_zero v = Inl TypeError"

text \<open>The truth value of a value in a condition.\<close>

fun truthy :: "pyval \<Rightarrow> bool" where
  "truthy PNone = False"
| "truthy (PBool b) = b"
| "truthy (PInt i) = (i \<noteq> 0)"
| "truthy (PFloat (Finite r)) = (r \<noteq> 0)"
| "truthy (PFloat f) = True"
| "truthy (PStr s) = (s \<noteq> [])"
| "truthy (PList l) = (l \<noteq> [])"
| "truthy (PDict d) = (d \<noteq> [])"

fun str_contains :: "string \<Rightarrow> string \<Rightarrow> bool" where
  "str_contains [] sub = (sub = [])"
| "str_contains (c # s) sub = (take (length sub) (c # s) = sub \<or> str_contains s sub)"

text \<open>
  \<^verbatim>\<open>key in v\<close> for a str \<open>key\<close>: a key of a dict, an item of a list, a substring of a
  str; TypeError on a value that is no container.
\<close>

fun py_contains :: "string \<Rightarrow> pyval \<Rightarrow> py_error + bool" where
  "py_contains key (PDict d) = Inr (map_of d key \<noteq> None)"
| "py_contains key (PList l) = Inr (PStr key \<in> set l)"
| "py_contains key (PStr s) = Inr (str_contains s key)"
| "py_contains key v = Inl TypeError"

text \<open>\<^verbatim>\<open>v[key]\<close> for a str \<open>key\<close>: KeyError on a dict without it, TypeError elsewhere.\<close>

fun py_getitem :: "pyval \<Rightarrow> string \<Rightarrow> py_error + pyval" where
  "py_getitem (PDict d) key = (case map_of d key of None \<Rightarrow> Inl KeyError | Some v \<Rightarrow> Inr v)"
| "py_getitem v key = Inl TypeError"

text \<open>\<^verbatim>\<open>v.get(key, default)\<close>: only a dict has the method.\<close>

fun py_get :: "pyval \<Rightarrow> string \<Rightarrow> pyval \<Rightarrow> py_error + pyval" where
  "py_get (PDict d) key dflt = Inr (case map_of d key of None \<Rightarrow> dflt | Some v \<Rightarrow> v)"
| "py_get v key dflt = Inl AttributeError"

section \<open>iOSToUnityBridge (ios\_to\_unity\_bridge.py)\<close>

text \<open>The fields of the bridge object that the conversion and the receive loop use.\<close>

record bridge =
  running :: bool
  last_hrv :: pyval
  last_breathing_phase :: pyval
  last_phase_duration :: pyval

definition init_bridge :: bridge where
  "init_bridge = \<lparr> running = False, last_hrv = PInt 0, last_breathing_phase = PStr [],
                   last_phase_duration = PInt 0 \<rparr>"

text \<open>The dict sent to Unity, its keys in the order of the dict display.\<close>

type_synonym unity_data = "(string \<times> pyval) list"

text \<open>
  The three cache updates of \<^verbatim>\<open>convert_to_unity_format\<close>, one definition for each
  \<^verbatim>\<open>if\<close> statement. \<^verbatim>\<open>A and B\<close> evaluates \<open>B\<close> only when \<open>A\<close> is true.
\<close>

definition update_hrv :: "bridge \<Rightarrow> pyval \<Rightarrow> py_error + bridge" where
  "update_hrv b ios_data =
     (case py_contains ''hrv'' ios_data of
        Inl e \<Rightarrow> Inl e
      | Inr False \<Rightarrow> Inr b
      | Inr True \<Rightarrow>
          (case py_getitem ios_data ''hrv'' of
             Inl e \<Rightarrow> Inl e
           | Inr v \<Rightarrow>
               (case py_gt_zero v of
                  Inl e \<Rightarrow> Inl e
                | Inr False \<Rightarrow> Inr b
                | Inr True \<Rightarrow>
                    (case py_getitem ios_data ''hrv'' of
                       Inl e \<Rightarrow> Inl e
                     | Inr v' \<Rightarrow> Inr (b\<lparr>last_hrv := v'\<rparr>)))))"

definition update_breathing_phase :: "bridge \<Rightarrow> pyval \<Rightarrow> py_error + bridge" where
  "update_breathing_phase b ios_data =
     (case py_contains ''breathing_phase'' ios_data of
        Inl e \<Rightarrow> Inl e
      | Inr False \<Rightarrow> Inr b
      | Inr True \<Rightarrow>
          (case py_getitem ios_data ''breathing_phase'' of
             Inl e \<Rightarrow> Inl e
           | Inr v \<Rightarrow>
               if truthy v
               then (case py_getitem ios_data ''breathing_phase'' of
                       Inl e \<Rightarrow> Inl e
                     | Inr v' \<Rightarrow> Inr (b\<lparr>last_breathing_phase := v'\<rparr>))
               else Inr b))"

definition update_phase_duration :: "bridge \<Rightarrow> pyval \<Rightarrow> py_error + bridge" where
  "update_phase_duration b ios_data =
     (case py_contains ''phase_duration'' ios_data of
        Inl e \<Rightarrow> Inl e
      | Inr False \<Rightarrow> Inr b
      | Inr True \<Rightarrow>
          (case py_getitem ios_data ''phase_duration'' of
             Inl e \<Rightarrow> Inl e
           | Inr v \<Rightarrow> Inr (b\<lparr>last_phase_duration := v\<rparr>)))"

text \<open>
  \<^verbatim>\<open>convert_to_unity_format\<close>: the bridge as the call leaves it, and the dict returned or
  the exception raised. \<open>now\<close> is what \<^verbatim>\<open>time.time()\<close> returns in the call.
\<close>

definition convert_to_unity_format ::
  "real \<Rightarrow> bridge \<Rightarrow> pyval \<Rightarrow> bridge \<times> (py_error + unity_data)" where
  "convert_to_unity_format now b ios_data =
     (case update_hrv b ios_data of
        Inl e \<Rightarrow> (b, Inl e)
      | Inr b1 \<Rightarrow>
     (case update_breathing_phase b1 ios_data of
        Inl e \<Rightarrow> (b1, Inl e)
      | Inr b2 \<Rightarrow>
     (case update_phase_duration b2 ios_data of
        Inl e \<Rightarrow> (b2, Inl e)
      | Inr b3 \<Rightarrow>
     (case py_get ios_data ''heart_rate'' (PInt 0) of
        Inl e \<Rightarrow> (b3, Inl e)
      | Inr hr \<Rightarrow>
     (case py_get ios_data ''timestamp'' (PFloat (Finite now)) of
        Inl e \<Rightarrow> (b3, Inl e)
      | Inr t \<Rightarrow>
          (b3, Inr [(''heart_rate_bpm'', hr),
                    (''hrv'', last_hrv b3),
                    (''breathing_phase'', last_breathing_phase b3),
                    (''phase_duration'', last_phase_duration b3),
                    (''force'', PInt 0),
                    (''resp_rate_bpm'', PInt 0),
                    (''steps'', PInt 0),
                    (''step_rate_spm'', PInt 0),
                    (''t'', t)]))))))"

text \<open>
  Successive calls of \<^verbatim>\<open>convert_to_unity_format\<close> on one bridge, each with its clock
  value; the caller catches an exception and goes on. The result is the bridge at the end.
\<close>

fun convert_all :: "bridge \<Rightarrow> (real \<times> pyval) list \<Rightarrow> bridge" where
  "convert_all b [] = b"
| "convert_all b (m # ms) = convert_all (fst (convert_to_unity_format (fst m) b (snd m))) ms"

subsection \<open>The receive loop\<close>

text \<open>
  What the loop prints, and what it sends to Unity. The calls into the codecs and the
  socket are parameters: decoding and parsing a datagram, serialising and sending a dict.
\<close>

datatype log_entry =
    LogReceived string string
  | LogReceiveError py_error
  | LogSent string
  | LogSendError py_error

record 'b world =
  unity_out :: "'b list"
  console :: "log_entry list"

record 'b libs =
  decode_utf8 :: "'b \<Rightarrow> py_error + string"
  json_loads :: "string \<Rightarrow> py_error + pyval"
  json_dumps :: "unity_data \<Rightarrow> py_error + string"
  encode_utf8 :: "string \<Rightarrow> 'b"
  sendto :: "'b \<Rightarrow> py_error option"

text \<open>
  One return of \<^verbatim>\<open>recvfrom\<close>: a datagram with the sender's address and the clock value
  of the conversion, or an exception.
\<close>

datatype 'b event = Datagram 'b "string \<times> nat" real | RecvFailure py_error

definition send_to_unity :: "'b libs \<Rightarrow> 'b world \<Rightarrow> unity_data \<Rightarrow> 'b world" where
  "send_to_unity L w unity_data =
     (case json_dumps L unity_data of
        Inl e \<Rightarrow> w\<lparr>console := console w @ [LogSendError e]\<rparr>
      | Inr json_str \<Rightarrow>
          (case sendto L (encode_utf8 L json_str) of
             Some e \<Rightarrow> w\<lparr>console := console w @ [LogSendError e]\<rparr>
           | None \<Rightarrow> w\<lparr>unity_out := unity_out w @ [encode_utf8 L json_str],
                        console := console w @ [LogSent json_str]\<rparr>))"

text \<open>The handler of the loop: \<^verbatim>\<open>except Exception as e: if self.running: print(...)\<close>.\<close>

definition receive_error :: "bridge \<Rightarrow> 'b world \<Rightarrow> py_error \<Rightarrow> 'b world" where
  "receive_error b w e =
     (if running b then w\<lparr>console := console w @ [LogReceiveError e]\<rparr> else w)"

text \<open>The body of the loop, on one return of \<^verbatim>\<open>recvfrom\<close>.\<close>

definition receive_step :: "'b libs \<Rightarrow> bridge \<times> 'b world \<Rightarrow> 'b event \<Rightarrow> bridge \<times> 'b world" where
  "receive_step L bw ev =
     (case ev of
        RecvFailure e \<Rightarrow> (fst bw, receive_error (fst bw) (snd bw) e)
      | Datagram data addr now \<Rightarrow>
          (case decode_utf8 L data of
             Inl e \<Rightarrow> (fst bw, receive_error (fst bw) (snd bw) e)
           | Inr json_str \<Rightarrow>
               (let w1 = (snd bw)\<lparr>console := console (snd bw) @ [LogReceived (fst addr) json_str]\<rparr>
                in case json_loads L json_str of
                     Inl e \<Rightarrow> (fst bw, receive_error (fst bw) w1 e)
                   | Inr ios_data \<Rightarrow>
                       (case convert_to_unity_format now (fst bw) ios_data of
                          (b', Inl e) \<Rightarrow> (b', receive_error b' w1 e)
                        | (b', Inr unity_data) \<Rightarrow> (b', send_to_unity L w1 unity_data)))))"

text \<open>
  \<^verbatim>\<open>receive_from_ios\<close>: \<^verbatim>\<open>while self.running\<close> around the body, run on the returns of
  \<^verbatim>\<open>recvfrom\<close> in their order; with none left the call blocks, and the model stops.
\<close>

fun receive_from_ios :: "'b libs \<Rightarrow> bridge \<times> 'b world \<Rightarrow> 'b event list \<Rightarrow> bridge \<times> 'b world" where
  "receive_from_ios L bw [] = bw"
| "receive_from_ios L bw (ev # evs) =
     (if running (fst bw) then receive_from_ios L (receive_step L bw ev) evs else bw)"

text \<open>
  The cache that \<^verbatim>\<open>convert_to_unity_format\<close> leaves on a dict, in closed form; it is
  proved equal to what the three updates compute (lemma \<open>convert_dict\<close>).
\<close>

definition cache_after :: "bridge \<Rightarrow> (string \<times> pyval) list \<Rightarrow> bridge" where
  "cache_after b d =
     b\<lparr> last_hrv := (case map_of d ''hrv'' of
                       None \<Rightarrow> last_hrv b
                     | Some v \<Rightarrow> if py_gt_zero v = Inr True then v else last_hrv b),
        last_breathing_phase := (case map_of d ''breathing_phase'' of
                       None \<Rightarrow> last_breathing_phase b
                     | Some v \<Rightarrow> if truthy v then v else last_breathing_phase b),
        last_phase_duration := (case map_of d ''phase_duration'' of
                       None \<Rightarrow> last_phase_duration b
                     | Some v \<Rightarrow> v) \<rparr>"

section \<open>Concrete inputs for the runs below\<close>

text \<open>Ten samples with a rising force and a constant respiration rate.\<close>

definition ramp10 :: "sample list" where
  "ramp10 = [(0, 12, 0), (1, 12, 1), (2, 12, 2), (3, 12, 3), (4, 12, 4),
             (5, 12, 5), (6, 12, 6), (7, 12, 7), (8, 12, 8), (9, 12, 9)]"

text \<open>Ten samples with a constant force and a constant respiration rate.\<close>

definition steady10 :: "sample list" where
  "steady10 = [(1, 15, 0), (1, 15, 1), (1, 15, 2), (1, 15, 3), (1, 15, 4),
               (1, 15, 5), (1, 15, 6), (1, 15, 7), (1, 15, 8), (1, 15, 9)]"

text \<open>
  Ten samples whose respiration rate swings between the float \<open>31 * 2 ^ 1019\<close> and its
  negative.
\<close>

definition swing10 :: "sample list" where
  "swing10 = [(0, 31 * 2 ^ 1019, 0), (0, - (31 * 2 ^ 1019), 1), (0, 31 * 2 ^ 1019, 2),
              (0, - (31 * 2 ^ 1019), 3), (0, 31 * 2 ^ 1019, 4), (0, - (31 * 2 ^ 1019), 5),
              (0, 31 * 2 ^ 1019, 6), (0, - (31 * 2 ^ 1019), 7), (0, 31 * 2 ^ 1019, 8),
              (0, - (31 * 2 ^ 1019), 9)]"

text \<open>Ten samples with force 0, but the last with force one quarter.\<close>

definition step10 :: "sample list" where
  "step10 = [(0, 12, 0), (0, 12, 1), (0, 12, 2), (0, 12, 3), (0, 12, 4),
             (0, 12, 5), (0, 12, 6), (0, 12, 7), (0, 12, 8), (1 / 4, 12, 9)]"

text \<open>
  A stand-in for the codecs and the socket in a concrete run: datagrams are byte strings,
  decoding accepts ASCII only, the parser knows the empty object, sending succeeds.
\<close>

definition example_libs :: "string libs" where
  "example_libs =
     \<lparr> decode_utf8 = (\<lambda>bs. if list_all (\<lambda>c. of_char c < (128::nat)) bs then Inr bs
                            else Inl UnicodeDecodeError),
       json_loads = (\<lambda>s. if s = ''{}'' then Inr (PDict []) else Inl JSONDecodeError),
       json_dumps = (\<lambda>u. Inr ''{...}''),
       encode_utf8 = (\<lambda>s. s),
       sendto = (\<lambda>bs. None) \<rparr>"

section \<open>The library operations\<close>

subsection \<open>Rounding to a float\<close>

lemma pow2_powr: "pow2 k = 2 powr (of_int k)"
  unfolding pow2_def using powr_int [of 2 k] by simp

lemma pow2_pos: "0 < pow2 k"
  by (simp add: pow2_powr)

lemma pow2_add: "pow2 (j + k) = pow2 j * pow2 k"
  by (simp add: pow2_powr powr_add)

lemma float_exponent_eq:
  assumes "pow2 e \<le> \<bar>x\<bar>" "\<bar>x\<bar> < pow2 (e + 1)"
  shows "float_exponent x = e"
proof -
  have "0 < \<bar>x\<bar>" using assms(1) pow2_pos [of e] by linarith
  then show ?thesis
    using assms unfolding float_exponent_def
    by (subst floor_log_eq_powr_iff) (simp_all add: pow2_powr)
qed

lemma float_exponent_bounds:
  assumes "x \<noteq> 0"
  shows "pow2 (float_exponent x) \<le> \<bar>x\<bar>" "\<bar>x\<bar> < pow2 (float_exponent x + 1)"
proof -
  have "0 < \<bar>x\<bar>" using assms by simp
  then have "2 powr (of_int (float_exponent x)) \<le> \<bar>x\<bar>
           \<and> \<bar>x\<bar> < 2 powr (of_int (float_exponent x + 1))"
    using floor_log_eq_powr_iff [of "\<bar>x\<bar>" 2 "float_exponent x"]
    by (simp add: float_exponent_def)
  then show "pow2 (float_exponent x) \<le> \<bar>x\<bar>" "\<bar>x\<bar> < pow2 (float_exponent x + 1)"
    by (simp_all add: pow2_powr)
qed

lemma round_double_at:
  assumes "pow2 e \<le> \<bar>x\<bar>" "\<bar>x\<bar> < pow2 (e + 1)"
  shows "round_double x =
           of_int (round_half_even (x / pow2 (max e (- 1022) - 52))) * pow2 (max e (- 1022) - 52)"
proof -
  have "x \<noteq> 0" using assms(1) pow2_pos [of e] by auto
  then show ?thesis
    by (simp add: round_double_def float_exponent_eq [OF assms] Let_def)
qed

lemma round_half_even_int: "round_half_even (of_int n) = n"
  by (simp add: round_half_even_def)

lemma round_half_even_ge: "of_int n \<le> y \<Longrightarrow> n \<le> round_half_even y"
proof -
  assume "of_int n \<le> y"
  then have "n \<le> \<lfloor>y\<rfloor>" by (simp add: le_floor_iff)
  then show ?thesis by (auto simp: round_half_even_def Let_def)
qed

lemma round_double_nonneg: "0 \<le> x \<Longrightarrow> 0 \<le> round_double x"
proof -
  assume x: "0 \<le> x"
  have "0 \<le> round_half_even (x / pow2 q)" for q
    using round_half_even_ge [of 0 "x / pow2 q"] x pow2_pos [of q] by simp
  then show ?thesis
    using pow2_pos by (simp add: round_double_def Let_def less_imp_le)
qed


lemma pow2_less_iff: "pow2 j < pow2 k \<longleftrightarrow> j < k"
  by (simp add: pow2_powr)

lemma pow2_le_iff: "pow2 j \<le> pow2 k \<longleftrightarrow> j \<le> k"
  by (simp add: pow2_powr)

lemma pow2_diff: "pow2 (j - k) = pow2 j / pow2 k"
  by (simp add: pow2_powr powr_diff)

lemma round_double_zero: "round_double 0 = 0"
  by (simp add: round_double_def)

lemma round_double_ge_pow2:
  assumes "pow2 k \<le> x" "- 1022 \<le> k"
  shows "pow2 k \<le> round_double x"
proof -
  have xpos: "0 < x" using assms(1) pow2_pos [of k] by linarith
  then have x0: "x \<noteq> 0" by simp
  define e where "e = float_exponent x"
  have lo: "pow2 e \<le> x" and hi: "x < pow2 (e + 1)"
    using float_exponent_bounds [OF x0] xpos by (simp_all add: e_def)
  have "pow2 k < pow2 (e + 1)" using assms(1) hi by linarith
  then have ke: "k \<le> e" by (simp add: pow2_less_iff)
  with assms(2) have q: "max e (- 1022) - 52 = e - 52" by simp
  have "pow2 52 = pow2 e / pow2 (e - 52)"
    using pow2_diff [of e "e - 52"] by simp
  also have "\<dots> \<le> x / pow2 (e - 52)"
    using lo pow2_pos [of "e - 52"] by (simp add: divide_right_mono)
  finally have "of_int (2 ^ 52) \<le> x / pow2 (e - 52)" by (simp add: pow2_def)
  then have "2 ^ 52 \<le> round_half_even (x / pow2 (e - 52))"
    by (rule round_half_even_ge)
  then have "of_int (2 ^ 52) \<le> (of_int (round_half_even (x / pow2 (e - 52))) :: real)"
    by (simp only: of_int_le_iff)
  then have "pow2 52 * pow2 (e - 52) \<le> of_int (round_half_even (x / pow2 (e - 52))) * pow2 (e - 52)"
    using pow2_pos [of "e - 52"] by (simp add: pow2_def)
  moreover have "pow2 52 * pow2 (e - 52) = pow2 e" using pow2_add [of 52 "e - 52"] by simp
  moreover have "round_double x = of_int (round_half_even (x / pow2 (e - 52))) * pow2 (e - 52)"
    using x0 q by (simp add: round_double_def Let_def e_def)
  ultimately have "pow2 e \<le> round_double x" by simp
  moreover have "pow2 k \<le> pow2 e" using ke by (simp add: pow2_le_iff)
  ultimately show ?thesis by linarith
qed

lemma round_double_of_int:
  assumes "\<bar>n\<bar> < 2 ^ 53"
  shows "round_double (of_int n) = of_int n"
proof (cases "n = 0")
  case True
  then show ?thesis by (simp add: round_double_zero)
next
  case False
  define x :: real where "x = of_int n"
  have x0: "x \<noteq> 0" using False by (simp add: x_def)
  define e where "e = float_exponent x"
  have lo: "pow2 e \<le> \<bar>x\<bar>" using float_exponent_bounds [OF x0] by (simp add: e_def)
  have "\<bar>x\<bar> < of_int (2 ^ 53)" using assms unfolding x_def by (simp only: of_int_abs [symmetric] of_int_less_iff)
  then have "\<bar>x\<bar> < pow2 53" by (simp add: pow2_def)
  with lo have "pow2 e < pow2 53" by linarith
  then have e53: "e < 53" by (simp add: pow2_less_iff)
  define q where "q = max e (- 1022) - 52"
  have q0: "q \<le> 0" using e53 by (simp add: q_def)
  have pq: "pow2 q = 1 / 2 ^ nat (- q)" 
  proof (cases "q = 0")
    case True then show ?thesis by (simp add: pow2_def)
  next
    case False with q0 show ?thesis by (simp add: pow2_def)
  qed
  have "x / pow2 q = of_int (n * 2 ^ nat (- q))" by (simp add: pq x_def)
  then have "round_half_even (x / pow2 q) = n * 2 ^ nat (- q)"
    by (simp only: round_half_even_int)
  then have "of_int (round_half_even (x / pow2 q)) * pow2 q = x"
    by (simp add: pq x_def)
  then show ?thesis using x0 by (simp add: round_double_def Let_def e_def q_def x_def)
qed

lemma float_add_1: "float_add 1 float_0_1 = Finite (2476979795053773 / 2251799813685248)"
proof -
  have "round_double (1 + float_0_1) =
          of_int (round_half_even ((1 + float_0_1) / pow2 (max 0 (- 1022) - 52)))
            * pow2 (max 0 (- 1022) - 52)"
    by (rule round_double_at) (simp_all add: pow2_def float_0_1_def)
  also have "\<dots> = 2476979795053773 / 2251799813685248"
    by (simp add: pow2_def float_0_1_def round_half_even_def Let_def)
  finally show ?thesis by (simp add: float_add_def float_round_def)
qed

lemma float_sub_1: "float_sub 1 float_0_1 = Finite (8106479329266893 / 9007199254740992)"
proof -
  have "round_double (1 - float_0_1) =
          of_int (round_half_even ((1 - float_0_1) / pow2 (max (- 1) (- 1022) - 52)))
            * pow2 (max (- 1) (- 1022) - 52)"
    by (rule round_double_at) (simp_all add: pow2_def float_0_1_def)
  also have "\<dots> = 8106479329266893 / 9007199254740992"
    by (simp add: pow2_def float_0_1_def round_half_even_def Let_def)
  finally show ?thesis by (simp add: float_sub_def float_round_def)
qed

lemma float_add_2: "float_add 2 float_0_1 = Finite (4728779608739021 / 2251799813685248)"
proof -
  have "round_double (2 + float_0_1) =
          of_int (round_half_even ((2 + float_0_1) / pow2 (max 1 (- 1022) - 52)))
            * pow2 (max 1 (- 1022) - 52)"
    by (rule round_double_at) (simp_all add: pow2_def float_0_1_def)
  also have "\<dots> = 4728779608739021 / 2251799813685248"
    by (simp add: pow2_def float_0_1_def round_half_even_def Let_def)
  finally show ?thesis by (simp add: float_add_def float_round_def)
qed

lemma float_sub_2: "float_sub 2 float_0_1 = Finite (4278419646001971 / 2251799813685248)"
proof -
  have "round_double (2 - float_0_1) =
          of_int (round_half_even ((2 - float_0_1) / pow2 (max 0 (- 1022) - 52)))
            * pow2 (max 0 (- 1022) - 52)"
    by (rule round_double_at) (simp_all add: pow2_def float_0_1_def)
  also have "\<dots> = 4278419646001971 / 2251799813685248"
    by (simp add: pow2_def float_0_1_def round_half_even_def Let_def)
  finally show ?thesis by (simp add: float_sub_def float_round_def)
qed

lemma float_add_5: "float_add 5 float_0_1 = Finite (2871044762448691 / 562949953421312)"
proof -
  have "round_double (5 + float_0_1) =
          of_int (round_half_even ((5 + float_0_1) / pow2 (max 2 (- 1022) - 52)))
            * pow2 (max 2 (- 1022) - 52)"
    by (rule round_double_at) (simp_all add: pow2_def float_0_1_def)
  also have "\<dots> = 2871044762448691 / 562949953421312"
    by (simp add: pow2_def float_0_1_def round_half_even_def Let_def)
  finally show ?thesis by (simp add: float_add_def float_round_def)
qed

lemma float_add_12: "float_add 12 float_0_1 = Finite (6811694436397875 / 562949953421312)"
proof -
  have "round_double (12 + float_0_1) =
          of_int (round_half_even ((12 + float_0_1) / pow2 (max 3 (- 1022) - 52)))
            * pow2 (max 3 (- 1022) - 52)"
    by (rule round_double_at) (simp_all add: pow2_def float_0_1_def)
  also have "\<dots> = 6811694436397875 / 562949953421312"
    by (simp add: pow2_def float_0_1_def round_half_even_def Let_def)
  finally show ?thesis by (simp add: float_add_def float_round_def)
qed

lemma float_sub_12: "float_sub 12 float_0_1 = Finite (6699104445713613 / 562949953421312)"
proof -
  have "round_double (12 - float_0_1) =
          of_int (round_half_even ((12 - float_0_1) / pow2 (max 3 (- 1022) - 52)))
            * pow2 (max 3 (- 1022) - 52)"
    by (rule round_double_at) (simp_all add: pow2_def float_0_1_def)
  also have "\<dots> = 6699104445713613 / 562949953421312"
    by (simp add: pow2_def float_0_1_def round_half_even_def Let_def)
  finally show ?thesis by (simp add: float_sub_def float_round_def)
qed

lemma float_add_two_53: "float_add 0 9007199254740992 = Finite 9007199254740992"
proof -
  have "round_double (of_int 4503599627370496 * 2) = of_int 4503599627370496 * 2"
  proof -
    have "round_double 9007199254740992 =
            of_int (round_half_even (9007199254740992 / pow2 (max 53 (- 1022) - 52)))
              * pow2 (max 53 (- 1022) - 52)"
      by (rule round_double_at) (simp_all add: pow2_def)
    also have "\<dots> = 9007199254740992"
      by (simp add: pow2_def round_half_even_def Let_def)
    finally show ?thesis by simp
  qed
  then show ?thesis by (simp add: float_add_def float_round_def)
qed

lemma float_add_quarter_two_53: "float_add (1 / 4) 9007199254740992 = Finite 9007199254740992"
proof -
  have "round_double (1 / 4 + 9007199254740992) =
          of_int (round_half_even ((1 / 4 + 9007199254740992) / pow2 (max 53 (- 1022) - 52)))
            * pow2 (max 53 (- 1022) - 52)"
    by (rule round_double_at) (simp_all add: pow2_def)
  also have "\<dots> = 9007199254740992"
    by (simp add: pow2_def round_half_even_def Let_def)
  finally show ?thesis by (simp add: float_add_def float_round_def)
qed

lemma float_round_of_int:
  assumes "\<bar>n\<bar> < 2 ^ 53"
  shows "float_round (of_int n) = Finite (of_int n)"
proof -
  have "\<bar>real_of_int n\<bar> < of_int (2 ^ 53)"
    using assms by (simp only: of_int_abs [symmetric] of_int_less_iff)
  then have "\<bar>real_of_int n\<bar> < 2 ^ 1024" by simp
  then show ?thesis by (simp add: float_round_def round_double_of_int [OF assms])
qed

lemma float_round_numeral:
  "numeral k < (2::int) ^ 53 \<Longrightarrow> float_round (numeral k) = Finite (numeral k)"
  using float_round_of_int [of "numeral k"] by simp

subsection \<open>Maximum, minimum, deque and standard deviation\<close>

lemma foldl_max_Max:
  "foldl (\<lambda>m y. if m < y then y else m) (x::real) xs = Max (set (x # xs))"
proof (induction xs arbitrary: x)
  case Nil
  show ?case by simp
next
  case (Cons a xs)
  have "Max (set (x # a # xs)) = Max (set ((if x < a then a else x) # xs))"
    by (cases "xs = []") (auto simp: max_def)
  then show ?case using Cons [of "if x < a then a else x"] by simp
qed

lemma foldl_min_Min:
  "foldl (\<lambda>m y. if y < m then y else m) (x::real) xs = Min (set (x # xs))"
proof (induction xs arbitrary: x)
  case Nil
  show ?case by simp
next
  case (Cons a xs)
  have "Min (set (x # a # xs)) = Min (set ((if a < x then a else x) # xs))"
    by (cases "xs = []") (auto simp: min_def)
  then show ?case using Cons [of "if a < x then a else x"] by simp
qed

lemma py_max_Max: "xs \<noteq> [] \<Longrightarrow> py_max xs = Inr (Max (set xs))"
  by (cases xs) (simp_all add: foldl_max_Max del: set_simps)

lemma py_min_Min: "xs \<noteq> [] \<Longrightarrow> py_min xs = Inr (Min (set xs))"
  by (cases xs) (simp_all add: foldl_min_Min del: set_simps)

lemma deque_append_drop:
  assumes "length d \<le> m"
  shows "deque_append m d x = drop (Suc (length d) - m) (d @ [x])"
using assms proof (cases "length d = m")
  case True
  then show ?thesis by (cases d) (auto simp: deque_append_def Let_def drop_Suc)
next
  case False
  with assms have "length d < m" by simp
  then show ?thesis by (simp add: deque_append_def Let_def)
qed

lemma deque_append_last_window:
  "deque_append m (drop (length xs - m) xs) x = drop (Suc (length xs) - m) (xs @ [x])"
proof -
  have "deque_append m (drop (length xs - m) xs) x =
          drop (Suc (length (drop (length xs - m) xs)) - m) (drop (length xs - m) xs @ [x])"
    by (rule deque_append_drop) simp
  also have "drop (length xs - m) xs @ [x] = drop (length xs - m) (xs @ [x])" by simp
  also have "drop (Suc (length (drop (length xs - m) xs)) - m) (drop (length xs - m) (xs @ [x]))
             = drop (Suc (length xs) - m) (xs @ [x])"
  proof (cases "length xs \<le> m")
    case True
    then show ?thesis by simp
  next
    case False
    then have "Suc (length (drop (length xs - m) xs)) - m = 1" by simp
    moreover from False have "1 + (length xs - m) = Suc (length xs) - m" by simp
    ultimately show ?thesis by (simp del: drop_append length_drop)
  qed
  finally show ?thesis .
qed

lemma sample_deviation_nonneg: "0 \<le> sample_deviation xs"
  by (auto simp: sample_deviation_def Let_def intro!: divide_nonneg_nonneg sum_list_nonneg)

lemma stdev_enough:
  "2 \<le> length xs \<Longrightarrow>
     stdev xs = (if 2 ^ 1024 \<le> round_double (sample_deviation xs) then Inl OverflowError
                 else Inr (round_double (sample_deviation xs)))"
  by (simp add: stdev_def Let_def)

lemma stdev_nonneg: "stdev xs = Inr sd \<Longrightarrow> 0 \<le> sd"
  using round_double_nonneg [OF sample_deviation_nonneg [of xs]]
  by (auto simp: stdev_def Let_def split: if_splits)

lemma stdev_constant:
  "stdev [12, 12, 12, 12, 12, 12, 12, 12, 12, 12] = Inr 0"
  by (simp add: stdev_def sample_deviation_def round_double_zero)

lemma stdev_swing:
  "stdev [31 * 2 ^ 1019, - (31 * 2 ^ 1019), 31 * 2 ^ 1019, - (31 * 2 ^ 1019), 31 * 2 ^ 1019,
          - (31 * 2 ^ 1019), 31 * 2 ^ 1019, - (31 * 2 ^ 1019), 31 * 2 ^ 1019,
          - (31 * 2 ^ 1019)] = Inl OverflowError"
proof -
  let ?xs = "[31 * 2 ^ 1019, - (31 * 2 ^ 1019), 31 * 2 ^ 1019, - (31 * 2 ^ 1019),
              31 * 2 ^ 1019, - (31 * 2 ^ 1019), 31 * 2 ^ 1019, - (31 * 2 ^ 1019),
              31 * 2 ^ 1019, - (31 * 2 ^ 1019)] :: real list"
  have "(2 ^ 1024)\<^sup>2 \<le> sum_list (map (\<lambda>x. (x - sum_list ?xs / real (length ?xs))\<^sup>2) ?xs)
          / real (length ?xs - 1)"
    by simp
  then have "2 ^ 1024 \<le> sample_deviation ?xs"
    unfolding sample_deviation_def Let_def by (rule real_le_rsqrt)
  then have "pow2 1024 \<le> sample_deviation ?xs" by (simp add: pow2_def)
  then have "pow2 1024 \<le> round_double (sample_deviation ?xs)"
    by (rule round_double_ge_pow2) simp
  then have "2 ^ 1024 \<le> round_double (sample_deviation ?xs)" by (simp add: pow2_def)
  then show ?thesis by (simp add: stdev_def Let_def)
qed

lemma Max_shift: "xs \<noteq> [] \<Longrightarrow> Max ((\<lambda>x. x + c) ` set xs) = Max (set xs) + (c::real)"
  using mono_Max_commute [of "\<lambda>x. x + c" "set xs"] by (simp add: mono_def)

lemma Min_shift: "xs \<noteq> [] \<Longrightarrow> Min ((\<lambda>x. x + c) ` set xs) = Min (set xs) + (c::real)"
  using mono_Min_commute [of "\<lambda>x. x + c" "set xs"] by (simp add: mono_def)

section \<open>The analyzer: one sample, then a sequence\<close>

lemma update_breathing_depth_eq:
  "update_breathing_depth st =
     Inr (if length (force_history st) < 10 then st
          else st\<lparr>breathing_depth :=
                    Max (set (force_history st)) - Min (set (force_history st))\<rparr>)"
proof (cases "length (force_history st) < 10")
  case True
  then show ?thesis by (simp add: update_breathing_depth_def)
next
  case False
  then have "force_history st \<noteq> []" by auto
  with False show ?thesis
    by (simp add: update_breathing_depth_def py_max_Max py_min_Min)
qed

lemma update_breathing_intensity_eq:
  "update_breathing_intensity st =
     Inr (if length (force_history st) < 5 then st
          else st\<lparr>breathing_intensity :=
                    sum_list (map abs (force_history st)) / real (length (force_history st))\<rparr>)"
proof (cases "length (force_history st) < 5")
  case True
  then show ?thesis by (simp add: update_breathing_intensity_def)
next
  case False
  then have "force_history st \<noteq> []" by auto
  with False show ?thesis
    by (simp add: update_breathing_intensity_def mean_def)
qed

lemma add_sample_total: "\<exists>st'. add_sample st s = Inr st'"
  by (simp add: add_sample_def update_breathing_depth_eq update_breathing_intensity_eq)

lemma add_sample_fields:
  assumes "add_sample st s = Inr st'"
  shows "window_size st' = window_size st"
    and "force_history st' = deque_append (window_size st) (force_history st) (sample_force s)"
    and "resp_rate_history st' =
           deque_append (window_size st) (resp_rate_history st) (sample_resp_rate s)"
    and "timestamps st' = deque_append (window_size st) (timestamps st) (sample_timestamp s)"
    and "session_start st' = session_start st"
    and "breathing_depth st' =
           (if length (force_history st') < 10 then breathing_depth st
            else Max (set (force_history st')) - Min (set (force_history st')))"
    and "breathing_regularity st' =
           (if length (resp_rate_history st') < 10 then breathing_regularity st
            else case stdev (resp_rate_history st') of
                   Inr std_dev \<Rightarrow> max 0 (1 - std_dev / 10)
                 | Inl e \<Rightarrow> 0)"
  using assms
  by (auto simp: add_sample_def update_breathing_depth_eq update_breathing_intensity_eq
        update_breathing_regularity_def append_sample_def split: if_splits sum.splits)

lemma add_samples_snoc:
  "add_samples st (ss @ [s]) =
     (case add_samples st ss of Inl e \<Rightarrow> Inl e | Inr st' \<Rightarrow> add_sample st' s)"
  by (induction ss arbitrary: st) (auto split: sum.splits)

lemma add_samples_total: "\<exists>st'. add_samples st ss = Inr st'"
proof (induction ss arbitrary: st)
  case Nil
  show ?case by simp
next
  case (Cons s ss)
  obtain st1 where "add_sample st s = Inr st1" using add_sample_total by blast
  then show ?case using Cons [of st1] by simp
qed

lemma add_samples_buffers:
  assumes "add_samples (init_analyzer ws now) ss = Inr st"
  shows "window_size st = ws
       \<and> force_history st = drop (length ss - ws) (map sample_force ss)
       \<and> resp_rate_history st = drop (length ss - ws) (map sample_resp_rate ss)
       \<and> timestamps st = drop (length ss - ws) (map sample_timestamp ss)"
  using assms
proof (induction ss arbitrary: st rule: rev_induct)
  case Nil
  then show ?case by (auto simp: init_analyzer_def)
next
  case (snoc s ss)
  from snoc.prems obtain st1 where run: "add_samples (init_analyzer ws now) ss = Inr st1"
    and step: "add_sample st1 s = Inr st"
    by (auto simp: add_samples_snoc split: sum.splits)
  note ih = snoc.IH [OF run]
  have "force_history st = drop (length (ss @ [s]) - ws) (map sample_force (ss @ [s]))"
    using add_sample_fields(2) [OF step] ih
      deque_append_last_window [of ws "map sample_force ss" "sample_force s"]
    by simp
  moreover
  have "resp_rate_history st = drop (length (ss @ [s]) - ws) (map sample_resp_rate (ss @ [s]))"
    using add_sample_fields(3) [OF step] ih
      deque_append_last_window [of ws "map sample_resp_rate ss" "sample_resp_rate s"]
    by simp
  moreover
  have "timestamps st = drop (length (ss @ [s]) - ws) (map sample_timestamp (ss @ [s]))"
    using add_sample_fields(4) [OF step] ih
      deque_append_last_window [of ws "map sample_timestamp ss" "sample_timestamp s"]
    by simp
  moreover have "window_size st = ws" using add_sample_fields(1) [OF step] ih by simp
  ultimately show ?case by blast
qed

lemma add_samples_depth_regularity:
  assumes "add_samples (init_analyzer ws now) ss = Inr st"
  shows "breathing_depth st =
           (if length (force_history st) < 10 then 0
            else Max (set (force_history st)) - Min (set (force_history st)))
       \<and> breathing_regularity st =
           (if length (resp_rate_history st) < 10 then 0
            else case stdev (resp_rate_history st) of
                   Inr std_dev \<Rightarrow> max 0 (1 - std_dev / 10)
                 | Inl e \<Rightarrow> 0)"
  using assms
proof (induction ss arbitrary: st rule: rev_induct)
  case Nil
  then show ?case by (auto simp: init_analyzer_def)
next
  case (snoc s ss)
  from snoc.prems obtain st1 where run: "add_samples (init_analyzer ws now) ss = Inr st1"
    and step: "add_sample st1 s = Inr st"
    by (auto simp: add_samples_snoc split: sum.splits)
  note ih = snoc.IH [OF run]
  have run': "add_samples (init_analyzer ws now) (ss @ [s]) = Inr st"
    using snoc.prems .
  have len_f: "length (force_history st1) \<le> length (force_history st)"
    using add_samples_buffers [OF run] add_samples_buffers [OF run'] by simp
  have len_r: "length (resp_rate_history st1) \<le> length (resp_rate_history st)"
    using add_samples_buffers [OF run] add_samples_buffers [OF run'] by simp
  have "breathing_depth st =
           (if length (force_history st) < 10 then 0
            else Max (set (force_history st)) - Min (set (force_history st)))"
    using add_sample_fields(6) [OF step] ih len_f by simp
  moreover
  have "breathing_regularity st =
           (if length (resp_rate_history st) < 10 then 0
            else case stdev (resp_rate_history st) of
                   Inr std_dev \<Rightarrow> max 0 (1 - std_dev / 10)
                 | Inl e \<Rightarrow> 0)"
    using add_sample_fields(7) [OF step] ih len_r by simp
  ultimately show ?case by blast
qed

lemma calculate_trend_eq:
  "calculate_trend data =
     Inr (if length data < 5 then 0
          else if float_less (float_add (hd (py_last_slice 5 data)) float_0_1)
                    (Finite (last (py_last_slice 5 data))) then 1
          else if float_less (Finite (last (py_last_slice 5 data)))
                    (float_sub (hd (py_last_slice 5 data)) float_0_1) then - 1
          else 0)"
proof (cases "length data < 5")
  case True
  then show ?thesis by (simp add: calculate_trend_def)
next
  case False
  define recent where "recent = py_last_slice 5 data"
  from False have len: "length recent = 5" by (simp add: recent_def py_last_slice_def)
  then have ne: "recent \<noteq> []" by auto
  have i0: "py_index recent 0 = Inr (hd recent)"
    using len ne by (simp add: py_index_def hd_conv_nth)
  have il: "py_index recent (- 1) = Inr (last recent)"
    using len ne by (simp add: py_index_def last_conv_nth)
  show ?thesis
    using False i0 il by (simp add: calculate_trend_def recent_def [symmetric] Let_def)
qed

lemma get_derived_metrics_total:
  "\<exists>m. get_derived_metrics now st = Inr m
     \<and> m_breathing_depth m = breathing_depth st
     \<and> m_breathing_regularity m = breathing_regularity st"
  by (simp add: get_derived_metrics_def calculate_trend_eq mean_def)

lemma those_shift_force:
  assumes "\<forall>s\<in>set ss. float_add (sample_force s) c = Finite (sample_force s + c)"
  shows "those (map (shift_force c) ss) =
           Some (map (\<lambda>s. (sample_force s + c, sample_resp_rate s, sample_timestamp s)) ss)"
  using assms by (induction ss) (simp_all add: shift_force_def)

lemma sample_force_shifted:
  "map sample_force (map (\<lambda>s. (sample_force s + c, sample_resp_rate s, sample_timestamp s)) ss)
     = map (\<lambda>x. x + c) (map sample_force ss)"
  by (simp add: sample_force_def)

lemmas analyzer_defs = add_sample_def append_sample_def update_breathing_depth_def
  update_breathing_regularity_def update_breathing_intensity_def deque_append_def
  init_analyzer_def sample_force_def sample_resp_rate_def sample_timestamp_def
  mean_def Let_def

section \<open>The bridge: conversion of one message\<close>

lemma update_hrv_dict:
  "update_hrv b (PDict d) =
     (case map_of d ''hrv'' of
        None \<Rightarrow> Inr b
      | Some v \<Rightarrow> (case py_gt_zero v of
                     Inl e \<Rightarrow> Inl e
                   | Inr g \<Rightarrow> Inr (if g then b\<lparr>last_hrv := v\<rparr> else b)))"
  by (auto simp: update_hrv_def split: option.splits sum.splits bool.splits)

lemma update_breathing_phase_dict:
  "update_breathing_phase b (PDict d) =
     Inr (case map_of d ''breathing_phase'' of
            None \<Rightarrow> b
          | Some v \<Rightarrow> if truthy v then b\<lparr>last_breathing_phase := v\<rparr> else b)"
  by (auto simp: update_breathing_phase_def split: option.splits)

lemma update_phase_duration_dict:
  "update_phase_duration b (PDict d) =
     Inr (case map_of d ''phase_duration'' of
            None \<Rightarrow> b
          | Some v \<Rightarrow> b\<lparr>last_phase_duration := v\<rparr>)"
  by (auto simp: update_phase_duration_def split: option.splits)

lemma update_hrv_not_dict:
  "\<forall>d. ios_data \<noteq> PDict d \<Longrightarrow> update_hrv b ios_data = Inr b' \<Longrightarrow> b' = b"
  by (cases ios_data) (auto simp: update_hrv_def split: sum.splits bool.splits)

lemma update_breathing_phase_not_dict:
  "\<forall>d. ios_data \<noteq> PDict d \<Longrightarrow> update_breathing_phase b ios_data = Inr b' \<Longrightarrow> b' = b"
  by (cases ios_data) (auto simp: update_breathing_phase_def split: sum.splits bool.splits)

lemma update_phase_duration_not_dict:
  "\<forall>d. ios_data \<noteq> PDict d \<Longrightarrow> update_phase_duration b ios_data = Inr b' \<Longrightarrow> b' = b"
  by (cases ios_data) (auto simp: update_phase_duration_def split: sum.splits bool.splits)

lemma py_get_not_dict: "\<forall>d. ios_data \<noteq> PDict d \<Longrightarrow> py_get ios_data k dflt = Inl AttributeError"
  by (cases ios_data) auto

lemma convert_not_dict:
  assumes "\<forall>d. ios_data \<noteq> PDict d"
  shows "\<exists>e. convert_to_unity_format now b ios_data = (b, Inl e)"
proof (cases "update_hrv b ios_data")
  case (Inl e)
  then show ?thesis by (simp add: convert_to_unity_format_def)
next
  case (Inr b1)
  then have b1: "b1 = b" using update_hrv_not_dict [OF assms] by blast
  show ?thesis
  proof (cases "update_breathing_phase b ios_data")
    case (Inl e)
    with Inr b1 show ?thesis by (simp add: convert_to_unity_format_def)
  next
    case Inr2: (Inr b2)
    then have b2: "b2 = b" using update_breathing_phase_not_dict [OF assms] by blast
    show ?thesis
    proof (cases "update_phase_duration b ios_data")
      case (Inl e)
      with Inr Inr2 b1 b2 show ?thesis by (simp add: convert_to_unity_format_def)
    next
      case Inr3: (Inr b3)
      then have b3: "b3 = b" using update_phase_duration_not_dict [OF assms] by blast
      with Inr Inr2 Inr3 b1 b2 show ?thesis
        by (simp add: convert_to_unity_format_def py_get_not_dict [OF assms])
    qed
  qed
qed

lemma convert_dict:
  "convert_to_unity_format now b (PDict d) =
     (case (case map_of d ''hrv'' of None \<Rightarrow> Inr False | Some v \<Rightarrow> py_gt_zero v) of
        Inl e \<Rightarrow> (b, Inl e)
      | Inr g \<Rightarrow>
          (cache_after b d,
           Inr [(''heart_rate_bpm'', case map_of d ''heart_rate'' of None \<Rightarrow> PInt 0 | Some v \<Rightarrow> v),
                (''hrv'', last_hrv (cache_after b d)),
                (''breathing_phase'', last_breathing_phase (cache_after b d)),
                (''phase_duration'', last_phase_duration (cache_after b d)),
                (''force'', PInt 0),
                (''resp_rate_bpm'', PInt 0),
                (''steps'', PInt 0),
                (''step_rate_spm'', PInt 0),
                (''t'', case map_of d ''timestamp'' of None \<Rightarrow> PFloat (Finite now) | Some v \<Rightarrow> v)]))"
  by (simp add: convert_to_unity_format_def update_hrv_dict update_breathing_phase_dict
        update_phase_duration_dict cache_after_def
        split: option.splits sum.splits)

section \<open>The claims\<close>

subsection \<open>C1: the cache of the bridge\<close>

text \<open>
  Claim C1 as stated: each cached field (hrv, breathing\_phase, phase\_duration) is updated
  only when the message supplies it with a present, non-default value, and is retained
  otherwise. The code does so for hrv and breathing\_phase, but it stores phase\_duration
  whenever the key is present: after a message with phase\_duration 2.5, a message with
  phase\_duration 0 overwrites the cached 2.5 with 0.
\<close>

theorem phase_duration_zero_overwrites:
  "last_phase_duration (convert_all init_bridge
      [(1, PDict [(''phase_duration'', PFloat (Finite (5 / 2)))])]) = PFloat (Finite (5 / 2))
   \<and> last_phase_duration (convert_all init_bridge
      [(1, PDict [(''phase_duration'', PFloat (Finite (5 / 2)))]),
       (2, PDict [(''phase_duration'', PInt 0)])]) = PInt 0"
  by (simp add: convert_dict cache_after_def init_bridge_def)

text \<open>
  Claim C1, amended. When a call of \<^verbatim>\<open>convert_to_unity_format\<close> returns, the message
  is a dict and: the cached hrv is the message's hrv when the key is present and its value
  is strictly positive, and the previous one otherwise; the cached breathing\_phase is the
  message's when the key is present and its value is true in a condition (for a string:
  not empty), and the previous one otherwise; the cached phase\_duration is the message's
  whenever the key is present (zero included), and the previous one otherwise. When the
  call raises, the cache is what it was. After the messages \<open>{hrv: 45}\<close>, \<open>{}\<close>,
  \<open>{hrv: 0}\<close> on a new bridge the cached hrv is 45.
\<close>

theorem cache_update_rule:
  "(convert_to_unity_format now b ios_data = (b', Inr u) \<longrightarrow>
      (\<exists>d. ios_data = PDict d
         \<and> last_hrv b' = (case map_of d ''hrv'' of
                            None \<Rightarrow> last_hrv b
                          | Some v \<Rightarrow> if py_gt_zero v = Inr True then v else last_hrv b)
         \<and> last_breathing_phase b' = (case map_of d ''breathing_phase'' of
                            None \<Rightarrow> last_breathing_phase b
                          | Some v \<Rightarrow> if truthy v then v else last_breathing_phase b)
         \<and> last_phase_duration b' = (case map_of d ''phase_duration'' of
                            None \<Rightarrow> last_phase_duration b
                          | Some v \<Rightarrow> v)))
   \<and> (convert_to_unity_format now b ios_data = (b', Inl e) \<longrightarrow> b' = b)
   \<and> last_hrv (convert_all init_bridge
        [(t1, PDict [(''hrv'', PInt 45)]), (t2, PDict []), (t3, PDict [(''hrv'', PInt 0)])])
       = PInt 45"
proof (intro conjI impI)
  assume ok: "convert_to_unity_format now b ios_data = (b', Inr u)"
  then obtain d where d: "ios_data = PDict d"
    using convert_not_dict [of ios_data now b] by auto
  from ok have "b' = cache_after b d"
    unfolding d convert_dict by (simp split: sum.splits)
  then show "\<exists>d. ios_data = PDict d
         \<and> last_hrv b' = (case map_of d ''hrv'' of
                            None \<Rightarrow> last_hrv b
                          | Some v \<Rightarrow> if py_gt_zero v = Inr True then v else last_hrv b)
         \<and> last_breathing_phase b' = (case map_of d ''breathing_phase'' of
                            None \<Rightarrow> last_breathing_phase b
                          | Some v \<Rightarrow> if truthy v then v else last_breathing_phase b)
         \<and> last_phase_duration b' = (case map_of d ''phase_duration'' of
                            None \<Rightarrow> last_phase_duration b
                          | Some v \<Rightarrow> v)"
    using d by (simp add: cache_after_def)
next
  assume err: "convert_to_unity_format now b ios_data = (b', Inl e)"
  show "b' = b"
  proof (cases "\<exists>d. ios_data = PDict d")
    case True
    then obtain d where d: "ios_data = PDict d" by blast
    from err show ?thesis unfolding d convert_dict by (simp split: sum.splits)
  next
    case False
    then show ?thesis using convert_not_dict [of ios_data now b] err by auto
  qed
next
  show "last_hrv (convert_all init_bridge
        [(t1, PDict [(''hrv'', PInt 45)]), (t2, PDict []), (t3, PDict [(''hrv'', PInt 0)])])
       = PInt 45"
    by (simp add: convert_dict cache_after_def init_bridge_def)
qed

text \<open>
  The rule at a message that updates hrv and breathing\_phase, and at a following message
  whose hrv is a string, on which the comparison raises and nothing is updated.
\<close>

theorem cache_update_rule_witness:
  "convert_to_unity_format 1 init_bridge
      (PDict [(''hrv'', PInt 45), (''breathing_phase'', PStr ''inhale''),
              (''phase_duration'', PInt 0)])
     = (init_bridge\<lparr>last_hrv := PInt 45, last_breathing_phase := PStr ''inhale''\<rparr>,
        Inr [(''heart_rate_bpm'', PInt 0), (''hrv'', PInt 45),
             (''breathing_phase'', PStr ''inhale''), (''phase_duration'', PInt 0),
             (''force'', PInt 0), (''resp_rate_bpm'', PInt 0), (''steps'', PInt 0),
             (''step_rate_spm'', PInt 0), (''t'', PFloat (Finite 1))])
   \<and> last_hrv (init_bridge\<lparr>last_hrv := PInt 45, last_breathing_phase := PStr ''inhale''\<rparr>)
       = PInt 45
   \<and> convert_to_unity_format 2
        (init_bridge\<lparr>last_hrv := PInt 45, last_breathing_phase := PStr ''inhale''\<rparr>)
        (PDict [(''hrv'', PStr ''50''), (''breathing_phase'', PStr ''exhale'')])
     = (init_bridge\<lparr>last_hrv := PInt 45, last_breathing_phase := PStr ''inhale''\<rparr>,
        Inl TypeError)"
proof -
  let ?b1 = "init_bridge\<lparr>last_hrv := PInt 45, last_breathing_phase := PStr ''inhale''\<rparr>"
  let ?m1 = "PDict [(''hrv'', PInt 45), (''breathing_phase'', PStr ''inhale''),
              (''phase_duration'', PInt 0)]"
  let ?u1 = "[(''heart_rate_bpm'', PInt 0), (''hrv'', PInt 45),
             (''breathing_phase'', PStr ''inhale''), (''phase_duration'', PInt 0),
             (''force'', PInt 0), (''resp_rate_bpm'', PInt 0), (''steps'', PInt 0),
             (''step_rate_spm'', PInt 0), (''t'', PFloat (Finite 1))]"
  let ?m2 = "PDict [(''hrv'', PStr ''50''), (''breathing_phase'', PStr ''exhale'')]"
  have h1: "convert_to_unity_format 1 init_bridge ?m1 = (?b1, Inr ?u1)"
    by (simp add: convert_dict cache_after_def init_bridge_def)
  have "\<exists>bb. convert_to_unity_format 2 ?b1 ?m2 = (bb, Inl TypeError)"
    by (simp add: convert_dict)
  then obtain bb where h2: "convert_to_unity_format 2 ?b1 ?m2 = (bb, Inl TypeError)" ..
  from cache_update_rule [of 1 init_bridge ?m1 ?b1 ?u1] h1
  have c1: "last_hrv ?b1 = PInt 45" by simp
  from cache_update_rule [of 2 ?b1 ?m2 bb _ TypeError] h2
  have c2: "bb = ?b1" by blast
  from h1 c1 h2 c2 show ?thesis by simp
qed

subsection \<open>C2: the rolling buffers\<close>

text \<open>
  Claim C2. For every capacity \<open>C\<close> and every sequence of \<open>N\<close> calls of
  \<^verbatim>\<open>add_sample\<close> on a new analyzer, no call raises, and each of the three buffers holds
  the last \<open>C\<close> appended values in insertion order (all of them when \<open>N \<le> C\<close>): its
  length is \<open>min N C\<close>, which is \<open>C\<close> for \<open>N > C\<close> and \<open>N\<close> for \<open>N \<le> C\<close>, and
  never more than \<open>C\<close>.
\<close>

theorem rolling_buffers_keep_last_window:
  "\<exists>st. add_samples (init_analyzer C t0) ss = Inr st
      \<and> force_history st = drop (length ss - C) (map sample_force ss)
      \<and> resp_rate_history st = drop (length ss - C) (map sample_resp_rate ss)
      \<and> timestamps st = drop (length ss - C) (map sample_timestamp ss)
      \<and> length (force_history st) = min (length ss) C
      \<and> length (resp_rate_history st) = min (length ss) C
      \<and> length (timestamps st) = min (length ss) C"
proof -
  obtain st where run: "add_samples (init_analyzer C t0) ss = Inr st"
    using add_samples_total by blast
  from add_samples_buffers [OF run] run show ?thesis by auto
qed

subsection \<open>C3: the keys of the dict sent to Unity\<close>

text \<open>
  Claim C3. Whenever \<^verbatim>\<open>convert_to_unity_format\<close> returns a dict, its keys are the nine
  fixed keys, in the order of the source, and force, resp\_rate\_bpm, steps and
  step\_rate\_spm are 0. On the first call, with a message that has none of the cacheable
  keys, the call returns, with hrv 0, breathing\_phase the empty string and
  phase\_duration 0 (and heart\_rate\_bpm 0 unless the message has a heart\_rate).
\<close>

theorem unity_data_nine_keys:
  "(convert_to_unity_format now b ios_data = (b', Inr u) \<longrightarrow>
      map fst u = [''heart_rate_bpm'', ''hrv'', ''breathing_phase'', ''phase_duration'',
                   ''force'', ''resp_rate_bpm'', ''steps'', ''step_rate_spm'', ''t'']
      \<and> map_of u ''force'' = Some (PInt 0)
      \<and> map_of u ''resp_rate_bpm'' = Some (PInt 0)
      \<and> map_of u ''steps'' = Some (PInt 0)
      \<and> map_of u ''step_rate_spm'' = Some (PInt 0))
   \<and> (map_of d ''hrv'' = None \<and> map_of d ''breathing_phase'' = None
        \<and> map_of d ''phase_duration'' = None \<longrightarrow>
      convert_to_unity_format now init_bridge (PDict d) =
        (init_bridge,
         Inr [(''heart_rate_bpm'', case map_of d ''heart_rate'' of None \<Rightarrow> PInt 0 | Some v \<Rightarrow> v),
              (''hrv'', PInt 0),
              (''breathing_phase'', PStr []),
              (''phase_duration'', PInt 0),
              (''force'', PInt 0),
              (''resp_rate_bpm'', PInt 0),
              (''steps'', PInt 0),
              (''step_rate_spm'', PInt 0),
              (''t'', case map_of d ''timestamp'' of None \<Rightarrow> PFloat (Finite now) | Some v \<Rightarrow> v)]))"
proof (intro conjI impI)
  assume ok: "convert_to_unity_format now b ios_data = (b', Inr u)"
  then obtain d where d: "ios_data = PDict d"
    using convert_not_dict [of ios_data now b] by auto
  from ok have u: "u = [(''heart_rate_bpm'', case map_of d ''heart_rate'' of None \<Rightarrow> PInt 0 | Some v \<Rightarrow> v),
                (''hrv'', last_hrv (cache_after b d)),
                (''breathing_phase'', last_breathing_phase (cache_after b d)),
                (''phase_duration'', last_phase_duration (cache_after b d)),
                (''force'', PInt 0),
                (''resp_rate_bpm'', PInt 0),
                (''steps'', PInt 0),
                (''step_rate_spm'', PInt 0),
                (''t'', case map_of d ''timestamp'' of None \<Rightarrow> PFloat (Finite now) | Some v \<Rightarrow> v)]"
    unfolding d convert_dict by (auto split: sum.splits)
  show "map fst u = [''heart_rate_bpm'', ''hrv'', ''breathing_phase'', ''phase_duration'',
                   ''force'', ''resp_rate_bpm'', ''steps'', ''step_rate_spm'', ''t'']"
    unfolding u by simp
  show "map_of u ''force'' = Some (PInt 0)" unfolding u by simp
  show "map_of u ''resp_rate_bpm'' = Some (PInt 0)" unfolding u by simp
  show "map_of u ''steps'' = Some (PInt 0)" unfolding u by simp
  show "map_of u ''step_rate_spm'' = Some (PInt 0)" unfolding u by simp
next
  assume "map_of d ''hrv'' = None \<and> map_of d ''breathing_phase'' = None
        \<and> map_of d ''phase_duration'' = None"
  then show "convert_to_unity_format now init_bridge (PDict d) =
        (init_bridge,
         Inr [(''heart_rate_bpm'', case map_of d ''heart_rate'' of None \<Rightarrow> PInt 0 | Some v \<Rightarrow> v),
              (''hrv'', PInt 0),
              (''breathing_phase'', PStr []),
              (''phase_duration'', PInt 0),
              (''force'', PInt 0),
              (''resp_rate_bpm'', PInt 0),
              (''steps'', PInt 0),
              (''step_rate_spm'', PInt 0),
              (''t'', case map_of d ''timestamp'' of None \<Rightarrow> PFloat (Finite now) | Some v \<Rightarrow> v)])"
    by (simp add: convert_dict cache_after_def init_bridge_def)
qed

text \<open>The first call with the empty message.\<close>

theorem unity_data_nine_keys_witness:
  "convert_to_unity_format 7 init_bridge (PDict []) =
     (init_bridge,
      Inr [(''heart_rate_bpm'', PInt 0), (''hrv'', PInt 0), (''breathing_phase'', PStr []),
           (''phase_duration'', PInt 0), (''force'', PInt 0), (''resp_rate_bpm'', PInt 0),
           (''steps'', PInt 0), (''step_rate_spm'', PInt 0), (''t'', PFloat (Finite 7))])
   \<and> map fst [(''heart_rate_bpm'', PInt 0), (''hrv'', PInt 0), (''breathing_phase'', PStr []),
           (''phase_duration'', PInt 0), (''force'', PInt 0), (''resp_rate_bpm'', PInt 0),
           (''steps'', PInt 0), (''step_rate_spm'', PInt 0), (''t'', PFloat (Finite 7))]
     = [''heart_rate_bpm'', ''hrv'', ''breathing_phase'', ''phase_duration'',
        ''force'', ''resp_rate_bpm'', ''steps'', ''step_rate_spm'', ''t'']"
proof -
  let ?u = "[(''heart_rate_bpm'', PInt 0), (''hrv'', PInt 0), (''breathing_phase'', PStr []),
           (''phase_duration'', PInt 0), (''force'', PInt 0), (''resp_rate_bpm'', PInt 0),
           (''steps'', PInt 0), (''step_rate_spm'', PInt 0), (''t'', PFloat (Finite 7))]"
  have d: "map_of ([] :: (string \<times> pyval) list) ''hrv'' = None
         \<and> map_of ([] :: (string \<times> pyval) list) ''breathing_phase'' = None
         \<and> map_of ([] :: (string \<times> pyval) list) ''phase_duration'' = None"
    by simp
  note inst = unity_data_nine_keys [of 7 init_bridge "PDict []" init_bridge ?u "[]"]
  from inst d have first: "convert_to_unity_format 7 init_bridge (PDict []) = (init_bridge, Inr ?u)"
    by simp
  with inst have "map fst ?u = [''heart_rate_bpm'', ''hrv'', ''breathing_phase'', ''phase_duration'',
        ''force'', ''resp_rate_bpm'', ''steps'', ''step_rate_spm'', ''t'']"
    by blast
  with first show ?thesis by blast
qed

subsection \<open>C4: the breathing depth\<close>

text \<open>
  Claim C4 as stated: after \<open>n \<ge> 10\<close> calls of \<^verbatim>\<open>add_sample\<close> the depth is the maximum
  minus the minimum of the force buffer. The guard of \<^verbatim>\<open>_update_breathing_depth\<close> reads
  the length of the buffer, not the number of calls: with a capacity of 5 the buffer never
  reaches 10 values, and after ten samples with forces 0 to 9 the depth is still 0, while the
  buffer holds 5 to 9, of range 4.
\<close>

theorem depth_small_window_counterexample:
  "add_samples (init_analyzer 5 0) ramp10 =
     Inr \<lparr> window_size = 5, force_history = [5, 6, 7, 8, 9],
           resp_rate_history = [12, 12, 12, 12, 12], timestamps = [5, 6, 7, 8, 9],
           last_breath_time = 0, breath_count = 0, session_start = 0,
           breathing_depth = 0, breathing_regularity = 0, breathing_intensity = 7 \<rparr>
   \<and> get_derived_metrics 10
       \<lparr> window_size = 5, force_history = [5, 6, 7, 8, 9],
         resp_rate_history = [12, 12, 12, 12, 12], timestamps = [5, 6, 7, 8, 9],
         last_breath_time = 0, breath_count = 0, session_start = 0,
         breathing_depth = 0, breathing_regularity = 0, breathing_intensity = 7 \<rparr> =
     Inr \<lparr> m_breathing_depth = 0, m_breathing_regularity = 0, m_breathing_intensity = 7,
           m_session_duration = 10, m_avg_resp_rate = 12, m_force_trend = 1,
           m_resp_rate_trend = 0 \<rparr>
   \<and> length ramp10 = 10
   \<and> Max (set [5, 6, 7, 8, 9 :: real]) - Min (set [5, 6, 7, 8, 9 :: real]) = 4"
  by (simp add: ramp10_def analyzer_defs get_derived_metrics_def calculate_trend_def
        py_index_def py_last_slice_def float_add_5 float_add_12 float_sub_12)

text \<open>
  Claim C4, amended. After every sequence of \<open>n\<close> calls of \<^verbatim>\<open>add_sample\<close> on a new
  analyzer of capacity \<open>ws\<close>, \<^verbatim>\<open>get_derived_metrics\<close> returns, and its breathing\_depth is
  the maximum minus the minimum of the current force buffer when the buffer holds at least
  10 values, that is when \<open>n \<ge> 10\<close> and \<open>ws \<ge> 10\<close> (as with the default capacity 50), and
  is 0 otherwise.
\<close>

theorem breathing_depth_of_window:
  "\<exists>st m. add_samples (init_analyzer ws t0) ss = Inr st
      \<and> get_derived_metrics now st = Inr m
      \<and> m_breathing_depth m =
          (if 10 \<le> length ss \<and> 10 \<le> ws
           then Max (set (force_history st)) - Min (set (force_history st))
           else 0)"
proof -
  obtain st where run: "add_samples (init_analyzer ws t0) ss = Inr st"
    using add_samples_total by blast
  obtain m where m: "get_derived_metrics now st = Inr m"
    and md: "m_breathing_depth m = breathing_depth st"
    using get_derived_metrics_total by blast
  have "length (force_history st) = min (length ss) ws"
    using add_samples_buffers [OF run] by simp
  then have "length (force_history st) < 10 \<longleftrightarrow> \<not> (10 \<le> length ss \<and> 10 \<le> ws)"
    by auto
  with add_samples_depth_regularity [OF run] md
  have "m_breathing_depth m =
          (if 10 \<le> length ss \<and> 10 \<le> ws
           then Max (set (force_history st)) - Min (set (force_history st))
           else 0)"
    by simp
  with run m show ?thesis by blast
qed

subsection \<open>C5: the breathing regularity\<close>

text \<open>
  Claim C5 as stated: after \<open>n \<ge> 10\<close> calls the regularity is
  \<open>max 0 (1 - stdev / 10)\<close> of the resp\_rate buffer. As for the depth, the guard reads the
  length of the buffer: with a capacity of 3, ten samples of constant rate 15 leave the
  regularity at 0, while the standard deviation of the buffer is 0 and the claimed value 1.
\<close>

theorem regularity_small_window_counterexample:
  "add_samples (init_analyzer 3 0) steady10 =
     Inr \<lparr> window_size = 3, force_history = [1, 1, 1],
           resp_rate_history = [15, 15, 15], timestamps = [7, 8, 9],
           last_breath_time = 0, breath_count = 0, session_start = 0,
           breathing_depth = 0, breathing_regularity = 0, breathing_intensity = 0 \<rparr>
   \<and> get_derived_metrics 10
       \<lparr> window_size = 3, force_history = [1, 1, 1],
         resp_rate_history = [15, 15, 15], timestamps = [7, 8, 9],
         last_breath_time = 0, breath_count = 0, session_start = 0,
         breathing_depth = 0, breathing_regularity = 0, breathing_intensity = 0 \<rparr> =
     Inr \<lparr> m_breathing_depth = 0, m_breathing_regularity = 0, m_breathing_intensity = 0,
           m_session_duration = 10, m_avg_resp_rate = 15, m_force_trend = 0,
           m_resp_rate_trend = 0 \<rparr>
   \<and> length steady10 = 10
   \<and> stdev [15, 15, 15] = Inr 0
   \<and> max 0 (1 - 0 / 10) = (1 :: real)"
  by (simp add: steady10_def analyzer_defs get_derived_metrics_def calculate_trend_def
        py_index_def py_last_slice_def stdev_def sample_deviation_def round_double_zero)

text \<open>
  Claim C5, amended. After every sequence of \<open>n\<close> calls of \<^verbatim>\<open>add_sample\<close> with
  finite numeric values on a new analyzer of capacity \<open>ws\<close>, \<^verbatim>\<open>get_derived_metrics\<close>
  returns. When the buffer holds at least 10 values, that is when \<open>n \<ge> 10\<close> and
  \<open>ws \<ge> 10\<close>, and \<^verbatim>\<open>statistics.stdev\<close> returns \<open>sd\<close> on the resp\_rate buffer, the
  regularity is \<open>max 0 (1 - sd / 10)\<close>, which lies between 0 and 1 and is \<open>1 - sd / 10\<close>
  when \<open>sd \<le> 10\<close>. When the buffer holds fewer than 10 values (\<open>n < 10\<close> or
  \<open>ws < 10\<close>) the regularity is 0. Whenever the computation of the standard deviation
  of the buffer fails, the regularity is 0.
\<close>

theorem breathing_regularity_of_window:
  "\<exists>st m. add_samples (init_analyzer ws t0) ss = Inr st
      \<and> get_derived_metrics now st = Inr m
      \<and> (if 10 \<le> length ss \<and> 10 \<le> ws
          then \<forall>sd. stdev (resp_rate_history st) = Inr sd \<longrightarrow>
                 m_breathing_regularity m = max 0 (1 - sd / 10)
                 \<and> 0 \<le> m_breathing_regularity m \<and> m_breathing_regularity m \<le> 1
                 \<and> (sd \<le> 10 \<longrightarrow> m_breathing_regularity m = 1 - sd / 10)
          else m_breathing_regularity m = 0)
      \<and> ((\<exists>e. stdev (resp_rate_history st) = Inl e) \<longrightarrow> m_breathing_regularity m = 0)"
proof -
  obtain st where run: "add_samples (init_analyzer ws t0) ss = Inr st"
    using add_samples_total by blast
  obtain m where m: "get_derived_metrics now st = Inr m"
    and mr: "m_breathing_regularity m = breathing_regularity st"
    using get_derived_metrics_total by blast
  have len: "length (resp_rate_history st) = min (length ss) ws"
    using add_samples_buffers [OF run] by simp
  note inv = add_samples_depth_regularity [OF run, THEN conjunct2]
  have main: "if 10 \<le> length ss \<and> 10 \<le> ws
          then \<forall>sd. stdev (resp_rate_history st) = Inr sd \<longrightarrow>
                 m_breathing_regularity m = max 0 (1 - sd / 10)
                 \<and> 0 \<le> m_breathing_regularity m \<and> m_breathing_regularity m \<le> 1
                 \<and> (sd \<le> 10 \<longrightarrow> m_breathing_regularity m = 1 - sd / 10)
          else m_breathing_regularity m = 0"
  proof (cases "10 \<le> length ss \<and> 10 \<le> ws")
    case True
    with len have l10: "10 \<le> length (resp_rate_history st)" by simp
    have "m_breathing_regularity m = max 0 (1 - sd / 10)
          \<and> 0 \<le> m_breathing_regularity m \<and> m_breathing_regularity m \<le> 1
          \<and> (sd \<le> 10 \<longrightarrow> m_breathing_regularity m = 1 - sd / 10)"
      if sd: "stdev (resp_rate_history st) = Inr sd" for sd
    proof -
      have pos: "0 \<le> sd" using stdev_nonneg [OF sd] .
      from inv l10 sd mr have "m_breathing_regularity m = max 0 (1 - sd / 10)" by simp
      with pos show ?thesis by auto
    qed
    then have "\<forall>sd. stdev (resp_rate_history st) = Inr sd \<longrightarrow>
                 m_breathing_regularity m = max 0 (1 - sd / 10)
                 \<and> 0 \<le> m_breathing_regularity m \<and> m_breathing_regularity m \<le> 1
                 \<and> (sd \<le> 10 \<longrightarrow> m_breathing_regularity m = 1 - sd / 10)"
      by blast
    with True show ?thesis by (simp only: if_True simp_thms)
  next
    case False
    with len have "length (resp_rate_history st) < 10" by auto
    with inv mr have "m_breathing_regularity m = 0" by simp
    with False show ?thesis by presburger
  qed
  have fail: "(\<exists>e. stdev (resp_rate_history st) = Inl e) \<longrightarrow> m_breathing_regularity m = 0"
    using inv mr by (auto split: if_splits)
  from run m main fail show ?thesis by blast
qed

text \<open>
  Ten samples of constant rate in a window of 10: standard deviation 0, regularity 1. Ten
  samples whose rate swings between two floats of large magnitude: the computation of the
  standard deviation raises OverflowError, the handler runs, regularity 0.
\<close>

theorem breathing_regularity_of_window_witness:
  "(\<exists>st m. add_samples (init_analyzer 10 0) ramp10 = Inr st
      \<and> get_derived_metrics 10 st = Inr m
      \<and> stdev (resp_rate_history st) = Inr 0 \<and> (0 :: real) \<le> 10
      \<and> m_breathing_regularity m = 1)
   \<and> (\<exists>st m. add_samples (init_analyzer 10 0) swing10 = Inr st
      \<and> get_derived_metrics 10 st = Inr m
      \<and> 10 \<le> length (resp_rate_history st)
      \<and> stdev (resp_rate_history st) = Inl OverflowError
      \<and> m_breathing_regularity m = 0)"
proof (rule conjI)
  have run: "add_samples (init_analyzer 10 0) ramp10 =
     Inr \<lparr> window_size = 10, force_history = [0, 1, 2, 3, 4, 5, 6, 7, 8, 9],
         resp_rate_history = [12, 12, 12, 12, 12, 12, 12, 12, 12, 12],
         timestamps = [0, 1, 2, 3, 4, 5, 6, 7, 8, 9],
         last_breath_time = 0, breath_count = 0, session_start = 0,
         breathing_depth = 9, breathing_regularity = 1, breathing_intensity = 9 / 2 \<rparr>"
    using stdev_constant by (simp add: ramp10_def analyzer_defs)
  from breathing_regularity_of_window [of 10 0 ramp10 10]
  obtain st m where st: "add_samples (init_analyzer 10 0) ramp10 = Inr st"
    and m: "get_derived_metrics 10 st = Inr m"
    and main: "if 10 \<le> length ramp10 \<and> 10 \<le> (10::nat)
          then \<forall>sd. stdev (resp_rate_history st) = Inr sd \<longrightarrow>
                 m_breathing_regularity m = max 0 (1 - sd / 10)
                 \<and> 0 \<le> m_breathing_regularity m \<and> m_breathing_regularity m \<le> 1
                 \<and> (sd \<le> 10 \<longrightarrow> m_breathing_regularity m = 1 - sd / 10)
          else m_breathing_regularity m = 0"
    by blast
  have len: "10 \<le> length ramp10" by (simp add: ramp10_def)
  from st run have rr: "resp_rate_history st = [12, 12, 12, 12, 12, 12, 12, 12, 12, 12]"
    by auto
  then have sd: "stdev (resp_rate_history st) = Inr 0" by (simp add: stdev_constant)
  from main len sd have "(0::real) \<le> 10 \<longrightarrow> m_breathing_regularity m = 1 - 0 / 10"
    by simp
  then have "m_breathing_regularity m = 1" by simp
  with st m sd show "\<exists>st m. add_samples (init_analyzer 10 0) ramp10 = Inr st
      \<and> get_derived_metrics 10 st = Inr m
      \<and> stdev (resp_rate_history st) = Inr 0 \<and> (0 :: real) \<le> 10
      \<and> m_breathing_regularity m = 1"
    by auto
next
  have run: "add_samples (init_analyzer 10 0) swing10 =
     Inr \<lparr> window_size = 10, force_history = [0, 0, 0, 0, 0, 0, 0, 0, 0, 0],
           resp_rate_history =
             [31 * 2 ^ 1019, - (31 * 2 ^ 1019), 31 * 2 ^ 1019, - (31 * 2 ^ 1019),
              31 * 2 ^ 1019, - (31 * 2 ^ 1019), 31 * 2 ^ 1019, - (31 * 2 ^ 1019),
              31 * 2 ^ 1019, - (31 * 2 ^ 1019)],
           timestamps = [0, 1, 2, 3, 4, 5, 6, 7, 8, 9],
           last_breath_time = 0, breath_count = 0, session_start = 0,
           breathing_depth = 0, breathing_regularity = 0, breathing_intensity = 0 \<rparr>"
    using stdev_swing by (simp add: swing10_def analyzer_defs)
  from breathing_regularity_of_window [of 10 0 swing10 10]
  obtain st m where st: "add_samples (init_analyzer 10 0) swing10 = Inr st"
    and m: "get_derived_metrics 10 st = Inr m"
    and fail: "(\<exists>e. stdev (resp_rate_history st) = Inl e) \<longrightarrow> m_breathing_regularity m = 0"
    by blast
  from st run have rr: "resp_rate_history st =
             [31 * 2 ^ 1019, - (31 * 2 ^ 1019), 31 * 2 ^ 1019, - (31 * 2 ^ 1019),
              31 * 2 ^ 1019, - (31 * 2 ^ 1019), 31 * 2 ^ 1019, - (31 * 2 ^ 1019),
              31 * 2 ^ 1019, - (31 * 2 ^ 1019)]"
    by auto
  have sd: "stdev (resp_rate_history st) = Inl OverflowError"
    unfolding rr by (rule stdev_swing)
  have len: "10 \<le> length (resp_rate_history st)" unfolding rr by simp
  from fail sd have "m_breathing_regularity m = 0" by blast
  with st m sd len show "\<exists>st m. add_samples (init_analyzer 10 0) swing10 = Inr st
      \<and> get_derived_metrics 10 st = Inr m
      \<and> 10 \<le> length (resp_rate_history st)
      \<and> stdev (resp_rate_history st) = Inl OverflowError
      \<and> m_breathing_regularity m = 0"
    by blast
qed

subsection \<open>C6: the trend\<close>

text \<open>
  Claim C6 as stated: \<^verbatim>\<open>_calculate_trend\<close> returns 1 when the last of the last 5 values
  exceeds the first of them by more than 0.1. The code compares the last value with the
  float sum \<^verbatim>\<open>recent[0] + 0.1\<close>, which is rounded: on the values 1.0, 1, 1, 1, 1.1 the
  last one (the float \<open>2476979795053773 / 2 ^ 51\<close>) exceeds the first by more than one
  tenth, and by more than the float 0.1, but the sum \<^verbatim>\<open>1.0 + 0.1\<close> is that same float, and
  the result is 0.
\<close>

theorem trend_threshold_counterexample:
  "calculate_trend [1, 1, 1, 1, 2476979795053773 / 2251799813685248] = Inr 0
   \<and> 1 / 10 < 2476979795053773 / 2251799813685248 - (1 :: real)
   \<and> float_0_1 < 2476979795053773 / 2251799813685248 - 1"
proof (intro conjI)
  show "calculate_trend [1, 1, 1, 1, 2476979795053773 / 2251799813685248] = Inr 0"
    by (simp add: calculate_trend_def py_index_def py_last_slice_def float_add_1 float_sub_1)
  show "1 / 10 < 2476979795053773 / 2251799813685248 - (1 :: real)" by simp
  show "float_0_1 < 2476979795053773 / 2251799813685248 - 1" by (simp add: float_0_1_def)
qed

text \<open>
  Claim C6, amended. \<^verbatim>\<open>_calculate_trend\<close> returns 1 when the buffer has at least 5
  values and the last of its last 5 is greater than the float sum of the first of them and
  0.1; it returns -1 when the last is less than the float difference of the first and 0.1;
  it returns 0 otherwise, also on fewer than 5 values. On a buffer that ends with
  1, 1, 1, 1, 2 it returns 1, with 2, 1, 1, 1, 1 it returns -1, with 1, 1, 1, 1, 1 it
  returns 0.
\<close>

theorem calculate_trend_last_five:
  "calculate_trend data =
     Inr (if 5 \<le> length data
             \<and> float_less (float_add (hd (py_last_slice 5 data)) float_0_1)
                  (Finite (last (py_last_slice 5 data))) then 1
          else if 5 \<le> length data
             \<and> float_less (Finite (last (py_last_slice 5 data)))
                  (float_sub (hd (py_last_slice 5 data)) float_0_1) then - 1
          else 0)
   \<and> calculate_trend (older @ [1, 1, 1, 1, 2]) = Inr 1
   \<and> calculate_trend (older @ [2, 1, 1, 1, 1]) = Inr (- 1)
   \<and> calculate_trend (older @ [1, 1, 1, 1, 1]) = Inr 0"
  by (auto simp: calculate_trend_eq py_last_slice_def float_add_1 float_sub_1 float_add_2
        float_sub_2)

subsection \<open>C7: the depth under a shift of the forces\<close>

text \<open>
  Claim C7 as stated: a uniform shift of the forces by a constant leaves the
  breathing\_depth unchanged. The shifted forces are float sums: with nine forces 0.0, one
  force 0.25 and the constant \<open>2 ^ 53\<close>, every sum is the float \<open>2 ^ 53\<close>, and the depth
  of the shifted sequence is 0 where the depth of the sequence is 0.25.
\<close>

theorem shifted_depth_counterexample:
  "those (map (shift_force 9007199254740992) step10) =
     Some [(9007199254740992, 12, 0), (9007199254740992, 12, 1), (9007199254740992, 12, 2),
           (9007199254740992, 12, 3), (9007199254740992, 12, 4), (9007199254740992, 12, 5),
           (9007199254740992, 12, 6), (9007199254740992, 12, 7), (9007199254740992, 12, 8),
           (9007199254740992, 12, 9)]
   \<and> add_samples (init_analyzer 50 0) step10 =
     Inr \<lparr> window_size = 50, force_history = [0, 0, 0, 0, 0, 0, 0, 0, 0, 1 / 4],
           resp_rate_history = [12, 12, 12, 12, 12, 12, 12, 12, 12, 12],
           timestamps = [0, 1, 2, 3, 4, 5, 6, 7, 8, 9],
           last_breath_time = 0, breath_count = 0, session_start = 0,
           breathing_depth = 1 / 4, breathing_regularity = 1, breathing_intensity = 1 / 40 \<rparr>
   \<and> add_samples (init_analyzer 50 0)
       [(9007199254740992, 12, 0), (9007199254740992, 12, 1), (9007199254740992, 12, 2),
        (9007199254740992, 12, 3), (9007199254740992, 12, 4), (9007199254740992, 12, 5),
        (9007199254740992, 12, 6), (9007199254740992, 12, 7), (9007199254740992, 12, 8),
        (9007199254740992, 12, 9)] =
     Inr \<lparr> window_size = 50,
           force_history =
             [9007199254740992, 9007199254740992, 9007199254740992, 9007199254740992,
              9007199254740992, 9007199254740992, 9007199254740992, 9007199254740992,
              9007199254740992, 9007199254740992],
           resp_rate_history = [12, 12, 12, 12, 12, 12, 12, 12, 12, 12],
           timestamps = [0, 1, 2, 3, 4, 5, 6, 7, 8, 9],
           last_breath_time = 0, breath_count = 0, session_start = 0,
           breathing_depth = 0, breathing_regularity = 1,
           breathing_intensity = 9007199254740992 \<rparr>"
proof (intro conjI)
  show "those (map (shift_force 9007199254740992) step10) =
     Some [(9007199254740992, 12, 0), (9007199254740992, 12, 1), (9007199254740992, 12, 2),
           (9007199254740992, 12, 3), (9007199254740992, 12, 4), (9007199254740992, 12, 5),
           (9007199254740992, 12, 6), (9007199254740992, 12, 7), (9007199254740992, 12, 8),
           (9007199254740992, 12, 9)]"
    by (simp add: step10_def shift_force_def sample_force_def sample_resp_rate_def
          sample_timestamp_def float_add_two_53 float_add_quarter_two_53)
  show "add_samples (init_analyzer 50 0) step10 =
     Inr \<lparr> window_size = 50, force_history = [0, 0, 0, 0, 0, 0, 0, 0, 0, 1 / 4],
           resp_rate_history = [12, 12, 12, 12, 12, 12, 12, 12, 12, 12],
           timestamps = [0, 1, 2, 3, 4, 5, 6, 7, 8, 9],
           last_breath_time = 0, breath_count = 0, session_start = 0,
           breathing_depth = 1 / 4, breathing_regularity = 1, breathing_intensity = 1 / 40 \<rparr>"
    using stdev_constant by (simp add: step10_def analyzer_defs)
  show "add_samples (init_analyzer 50 0)
       [(9007199254740992, 12, 0), (9007199254740992, 12, 1), (9007199254740992, 12, 2),
        (9007199254740992, 12, 3), (9007199254740992, 12, 4), (9007199254740992, 12, 5),
        (9007199254740992, 12, 6), (9007199254740992, 12, 7), (9007199254740992, 12, 8),
        (9007199254740992, 12, 9)] =
     Inr \<lparr> window_size = 50,
           force_history =
             [9007199254740992, 9007199254740992, 9007199254740992, 9007199254740992,
              9007199254740992, 9007199254740992, 9007199254740992, 9007199254740992,
              9007199254740992, 9007199254740992],
           resp_rate_history = [12, 12, 12, 12, 12, 12, 12, 12, 12, 12],
           timestamps = [0, 1, 2, 3, 4, 5, 6, 7, 8, 9],
           last_breath_time = 0, breath_count = 0, session_start = 0,
           breathing_depth = 0, breathing_regularity = 1,
           breathing_intensity = 9007199254740992 \<rparr>"
    using stdev_constant by (simp add: analyzer_defs)
qed

text \<open>
  Claim C7, amended. For every sequence of at least 10 samples and every constant \<open>c\<close>
  such that each float sum of a force and \<open>c\<close> is exact (finite and not rounded), the
  sequence with \<open>c\<close> added to each force gives the same breathing\_depth as the sequence
  itself, on analyzers of the same capacity.
\<close>

theorem breathing_depth_shift_invariant:
  assumes "10 \<le> length ss"
    and "\<forall>s\<in>set ss. float_add (sample_force s) c = Finite (sample_force s + c)"
  shows "\<exists>ss' st st' m m'. those (map (shift_force c) ss) = Some ss'
      \<and> add_samples (init_analyzer ws t0) ss = Inr st
      \<and> add_samples (init_analyzer ws t0) ss' = Inr st'
      \<and> get_derived_metrics now st = Inr m
      \<and> get_derived_metrics now st' = Inr m'
      \<and> m_breathing_depth m' = m_breathing_depth m"
proof -
  define ss' where
    "ss' = map (\<lambda>s. (sample_force s + c, sample_resp_rate s, sample_timestamp s)) ss"
  have sh: "those (map (shift_force c) ss) = Some ss'"
    unfolding ss'_def using assms(2) by (rule those_shift_force)
  obtain st where run: "add_samples (init_analyzer ws t0) ss = Inr st"
    using add_samples_total by blast
  obtain st' where run': "add_samples (init_analyzer ws t0) ss' = Inr st'"
    using add_samples_total by blast
  obtain m where m: "get_derived_metrics now st = Inr m"
    and md: "m_breathing_depth m = breathing_depth st"
    using get_derived_metrics_total by blast
  obtain m' where m': "get_derived_metrics now st' = Inr m'"
    and md': "m_breathing_depth m' = breathing_depth st'"
    using get_derived_metrics_total by blast
  have fh: "force_history st' = map (\<lambda>x. x + c) (force_history st)"
    using add_samples_buffers [OF run] add_samples_buffers [OF run']
    by (simp add: ss'_def sample_force_shifted drop_map del: map_map)
  have "breathing_depth st' = breathing_depth st"
  proof (cases "length (force_history st) < 10")
    case True
    then show ?thesis
      using add_samples_depth_regularity [OF run] add_samples_depth_regularity [OF run'] fh
      by simp
  next
    case False
    then have ne: "force_history st \<noteq> []" by auto
    show ?thesis
      using False add_samples_depth_regularity [OF run] add_samples_depth_regularity [OF run']
      by (simp add: fh Max_shift [OF ne] Min_shift [OF ne])
  qed
  with sh run run' m m' md md' show ?thesis by auto
qed

text \<open>Ten samples with forces 0 to 9, shifted by 3, in the default window of 50.\<close>

theorem breathing_depth_shift_invariant_witness:
  "10 \<le> length ramp10
   \<and> map (\<lambda>s. float_add (sample_force s) 3) ramp10
       = map (\<lambda>s. Finite (sample_force s + 3)) ramp10
   \<and> (\<exists>ss' st st' m m'. those (map (shift_force 3) ramp10) = Some ss'
      \<and> add_samples (init_analyzer 50 0) ramp10 = Inr st
      \<and> add_samples (init_analyzer 50 0) ss' = Inr st'
      \<and> get_derived_metrics 10 st = Inr m
      \<and> get_derived_metrics 10 st' = Inr m'
      \<and> m_breathing_depth m' = m_breathing_depth m)"
proof -
  have len: "10 \<le> length ramp10" by (simp add: ramp10_def)
  have ex: "\<forall>s\<in>set ramp10. float_add (sample_force s) 3 = Finite (sample_force s + 3)"
    by (simp add: ramp10_def sample_force_def float_add_def float_round_numeral)
  have eq: "map (\<lambda>s. float_add (sample_force s) 3) ramp10
       = map (\<lambda>s. Finite (sample_force s + 3)) ramp10"
    using ex by simp
  from breathing_depth_shift_invariant [OF len ex, of 50 0 10] len eq show ?thesis by blast
qed

subsection \<open>C8: a datagram that cannot be decoded or parsed\<close>

text \<open>
  Claim C8. While the bridge is running, a datagram on which UTF-8 decoding or JSON
  parsing raises is handled inside the loop: the error is printed (after the line of the
  received text, when decoding succeeded), nothing is sent to Unity, the bridge with its
  cached values is unchanged, and the loop goes on with the datagrams that follow.
\<close>

theorem malformed_datagram_dropped:
  assumes "running b"
    and "decode_utf8 L data = Inl e
         \<or> (\<exists>s. decode_utf8 L data = Inr s \<and> json_loads L s = Inl e)"
  shows "\<exists>w'. receive_step L (b, w) (Datagram data addr now) = (b, w')
           \<and> unity_out w' = unity_out w
           \<and> console w' =
               console w @ (case decode_utf8 L data of
                              Inl e' \<Rightarrow> [LogReceiveError e]
                            | Inr s \<Rightarrow> [LogReceived (fst addr) s, LogReceiveError e])
           \<and> receive_from_ios L (b, w) (Datagram data addr now # evs) =
               receive_from_ios L (b, w') evs"
  using assms
  by (auto simp: receive_step_def receive_error_def Let_def)

text \<open>
  A run on three datagrams: bytes that are no UTF-8, text that is no JSON, and the empty
  object, which alone is forwarded.
\<close>

theorem malformed_datagram_dropped_witness:
  "running (init_bridge\<lparr>running := True\<rparr>)
   \<and> decode_utf8 example_libs [CHR 0xFF, CHR 0xFE] = Inl UnicodeDecodeError
   \<and> decode_utf8 example_libs ''{oops'' = Inr ''{oops''
   \<and> json_loads example_libs ''{oops'' = Inl JSONDecodeError
   \<and> receive_from_ios example_libs
        (init_bridge\<lparr>running := True\<rparr>, \<lparr> unity_out = [], console = [] \<rparr>)
        [Datagram [CHR 0xFF, CHR 0xFE] (''10.0.0.2'', 5000) 1,
         Datagram ''{oops'' (''10.0.0.2'', 5000) 2,
         Datagram ''{}'' (''10.0.0.2'', 5000) 3]
      = (init_bridge\<lparr>running := True\<rparr>,
         \<lparr> unity_out = [''{...}''],
           console = [LogReceiveError UnicodeDecodeError,
                      LogReceived ''10.0.0.2'' ''{oops'', LogReceiveError JSONDecodeError,
                      LogReceived ''10.0.0.2'' ''{}'', LogSent ''{...}''] \<rparr>)"
proof -
  let ?b = "init_bridge\<lparr>running := True\<rparr>"
  let ?w = "\<lparr> unity_out = [], console = [] \<rparr> :: string world"
  let ?a = "(''10.0.0.2'', 5000::nat)"
  let ?d1 = "[CHR 0xFF, CHR 0xFE]"
  have r: "running ?b" by simp
  have dec1: "decode_utf8 example_libs ?d1 = Inl UnicodeDecodeError"
    by (simp add: example_libs_def)
  have dec2: "decode_utf8 example_libs ''{oops'' = Inr ''{oops''"
    by (simp add: example_libs_def)
  have par2: "json_loads example_libs ''{oops'' = Inl JSONDecodeError"
    by (simp add: example_libs_def)
  have h1: "decode_utf8 example_libs ?d1 = Inl UnicodeDecodeError
         \<or> (\<exists>s. decode_utf8 example_libs ?d1 = Inr s
                \<and> json_loads example_libs s = Inl UnicodeDecodeError)"
    using dec1 by simp
  have h2: "decode_utf8 example_libs ''{oops'' = Inl JSONDecodeError
         \<or> (\<exists>s. decode_utf8 example_libs ''{oops'' = Inr s
                \<and> json_loads example_libs s = Inl JSONDecodeError)"
    using dec2 par2 by simp
  from malformed_datagram_dropped [OF r h1, of ?w ?a 1
      "[Datagram ''{oops'' ?a 2, Datagram ''{}'' ?a 3]"] dec1
  obtain w1 where out1: "unity_out w1 = []"
    and con1: "console w1 = [LogReceiveError UnicodeDecodeError]"
    and loop1: "receive_from_ios example_libs (?b, ?w)
                 [Datagram ?d1 ?a 1, Datagram ''{oops'' ?a 2, Datagram ''{}'' ?a 3]
               = receive_from_ios example_libs (?b, w1)
                   [Datagram ''{oops'' ?a 2, Datagram ''{}'' ?a 3]"
    by auto
  from malformed_datagram_dropped [OF r h2, of w1 ?a 2 "[Datagram ''{}'' ?a 3]"] dec2 out1 con1
  obtain w2 where out2: "unity_out w2 = []"
    and con2: "console w2 = [LogReceiveError UnicodeDecodeError,
                 LogReceived ''10.0.0.2'' ''{oops'', LogReceiveError JSONDecodeError]"
    and loop2: "receive_from_ios example_libs (?b, w1)
                   [Datagram ''{oops'' ?a 2, Datagram ''{}'' ?a 3]
               = receive_from_ios example_libs (?b, w2) [Datagram ''{}'' ?a 3]"
    by auto
  from out2 con2 have w2: "w2 = \<lparr> unity_out = [],
      console = [LogReceiveError UnicodeDecodeError,
                 LogReceived ''10.0.0.2'' ''{oops'', LogReceiveError JSONDecodeError] \<rparr>"
    by (cases w2) simp
  have "receive_from_ios example_libs (?b, w2) [Datagram ''{}'' ?a 3]
      = (?b, \<lparr> unity_out = [''{...}''],
           console = [LogReceiveError UnicodeDecodeError,
                      LogReceived ''10.0.0.2'' ''{oops'', LogReceiveError JSONDecodeError,
                      LogReceived ''10.0.0.2'' ''{}'', LogSent ''{...}''] \<rparr>)"
    unfolding w2
    by (simp add: receive_step_def send_to_unity_def convert_dict cache_after_def
          init_bridge_def example_libs_def)
  with loop1 loop2 r dec1 dec2 par2 show ?thesis by simp
qed

subsection \<open>C9: the heart rate is not cached\<close>

text \<open>
  Claim C9. For every message without the key heart\_rate, the heart\_rate\_bpm sent to
  Unity is 0, whatever messages the bridge converted before.
\<close>

theorem heart_rate_not_cached:
  assumes "map_of d ''heart_rate'' = None"
    and "convert_to_unity_format now (convert_all b0 earlier) (PDict d) = (b', Inr u)"
  shows "map_of u ''heart_rate_bpm'' = Some (PInt 0)"
  using assms unfolding convert_dict by (auto split: sum.splits)

text \<open>An empty message after a message with heart rate 75: heart\_rate\_bpm is 0.\<close>

theorem heart_rate_not_cached_witness:
  "map_of ([] :: (string \<times> pyval) list) ''heart_rate'' = None
   \<and> convert_to_unity_format 2
        (convert_all init_bridge [(1, PDict [(''heart_rate'', PInt 75), (''hrv'', PInt 45)])])
        (PDict [])
      = (init_bridge\<lparr>last_hrv := PInt 45\<rparr>,
         Inr [(''heart_rate_bpm'', PInt 0), (''hrv'', PInt 45), (''breathing_phase'', PStr []),
              (''phase_duration'', PInt 0), (''force'', PInt 0), (''resp_rate_bpm'', PInt 0),
              (''steps'', PInt 0), (''step_rate_spm'', PInt 0), (''t'', PFloat (Finite 2))])
   \<and> map_of [(''heart_rate_bpm'', PInt 0), (''hrv'', PInt 45), (''breathing_phase'', PStr []),
              (''phase_duration'', PInt 0), (''force'', PInt 0), (''resp_rate_bpm'', PInt 0),
              (''steps'', PInt 0), (''step_rate_spm'', PInt 0), (''t'', PFloat (Finite 2))]
        ''heart_rate_bpm'' = Some (PInt 0)"
proof -
  let ?u = "[(''heart_rate_bpm'', PInt 0), (''hrv'', PInt 45), (''breathing_phase'', PStr []),
              (''phase_duration'', PInt 0), (''force'', PInt 0), (''resp_rate_bpm'', PInt 0),
              (''steps'', PInt 0), (''step_rate_spm'', PInt 0), (''t'', PFloat (Finite 2))]"
  have k: "map_of ([] :: (string \<times> pyval) list) ''heart_rate'' = None" by simp
  have r: "convert_to_unity_format 2
        (convert_all init_bridge [(1, PDict [(''heart_rate'', PInt 75), (''hrv'', PInt 45)])])
        (PDict [])
      = (init_bridge\<lparr>last_hrv := PInt 45\<rparr>, Inr ?u)"
    by (simp add: convert_dict cache_after_def init_bridge_def)
  from heart_rate_not_cached [OF k r] k r show ?thesis by blast
qed

subsection \<open>C10: the standard deviation behind the guard\<close>

text \<open>
  Claim C10 as stated: with at least 10 numeric values in the resp\_rate buffer the
  computation of the standard deviation cannot fail, and the handler is unreachable. With
  ten values that swing between the float \<open>31 * 2 ^ 1019\<close> and its negative the standard
  deviation is beyond the range of a float, \<^verbatim>\<open>statistics.stdev\<close> raises OverflowError,
  and the handler sets the regularity, here from 1, to 0.
\<close>

theorem regularity_overflow_counterexample:
  "add_samples (init_analyzer 10 0) swing10 =
     Inr \<lparr> window_size = 10, force_history = [0, 0, 0, 0, 0, 0, 0, 0, 0, 0],
           resp_rate_history =
             [31 * 2 ^ 1019, - (31 * 2 ^ 1019), 31 * 2 ^ 1019, - (31 * 2 ^ 1019),
              31 * 2 ^ 1019, - (31 * 2 ^ 1019), 31 * 2 ^ 1019, - (31 * 2 ^ 1019),
              31 * 2 ^ 1019, - (31 * 2 ^ 1019)],
           timestamps = [0, 1, 2, 3, 4, 5, 6, 7, 8, 9],
           last_breath_time = 0, breath_count = 0, session_start = 0,
           breathing_depth = 0, breathing_regularity = 0, breathing_intensity = 0 \<rparr>
   \<and> stdev [31 * 2 ^ 1019, - (31 * 2 ^ 1019), 31 * 2 ^ 1019, - (31 * 2 ^ 1019),
             31 * 2 ^ 1019, - (31 * 2 ^ 1019), 31 * 2 ^ 1019, - (31 * 2 ^ 1019),
             31 * 2 ^ 1019, - (31 * 2 ^ 1019)] = Inl OverflowError
   \<and> update_breathing_regularity
       \<lparr> window_size = 10, force_history = [0, 0, 0, 0, 0, 0, 0, 0, 0, 0],
         resp_rate_history =
           [31 * 2 ^ 1019, - (31 * 2 ^ 1019), 31 * 2 ^ 1019, - (31 * 2 ^ 1019),
            31 * 2 ^ 1019, - (31 * 2 ^ 1019), 31 * 2 ^ 1019, - (31 * 2 ^ 1019),
            31 * 2 ^ 1019, - (31 * 2 ^ 1019)],
         timestamps = [0, 1, 2, 3, 4, 5, 6, 7, 8, 9],
         last_breath_time = 0, breath_count = 0, session_start = 0,
         breathing_depth = 0, breathing_regularity = 1, breathing_intensity = 0 \<rparr> =
     \<lparr> window_size = 10, force_history = [0, 0, 0, 0, 0, 0, 0, 0, 0, 0],
       resp_rate_history =
         [31 * 2 ^ 1019, - (31 * 2 ^ 1019), 31 * 2 ^ 1019, - (31 * 2 ^ 1019),
          31 * 2 ^ 1019, - (31 * 2 ^ 1019), 31 * 2 ^ 1019, - (31 * 2 ^ 1019),
          31 * 2 ^ 1019, - (31 * 2 ^ 1019)],
       timestamps = [0, 1, 2, 3, 4, 5, 6, 7, 8, 9],
       last_breath_time = 0, breath_count = 0, session_start = 0,
       breathing_depth = 0, breathing_regularity = 0, breathing_intensity = 0 \<rparr>"
proof (intro conjI)
  show "add_samples (init_analyzer 10 0) swing10 =
     Inr \<lparr> window_size = 10, force_history = [0, 0, 0, 0, 0, 0, 0, 0, 0, 0],
           resp_rate_history =
             [31 * 2 ^ 1019, - (31 * 2 ^ 1019), 31 * 2 ^ 1019, - (31 * 2 ^ 1019),
              31 * 2 ^ 1019, - (31 * 2 ^ 1019), 31 * 2 ^ 1019, - (31 * 2 ^ 1019),
              31 * 2 ^ 1019, - (31 * 2 ^ 1019)],
           timestamps = [0, 1, 2, 3, 4, 5, 6, 7, 8, 9],
           last_breath_time = 0, breath_count = 0, session_start = 0,
           breathing_depth = 0, breathing_regularity = 0, breathing_intensity = 0 \<rparr>"
    using stdev_swing by (simp add: swing10_def analyzer_defs)
  show "stdev [31 * 2 ^ 1019, - (31 * 2 ^ 1019), 31 * 2 ^ 1019, - (31 * 2 ^ 1019),
             31 * 2 ^ 1019, - (31 * 2 ^ 1019), 31 * 2 ^ 1019, - (31 * 2 ^ 1019),
             31 * 2 ^ 1019, - (31 * 2 ^ 1019)] = Inl OverflowError"
    by (rule stdev_swing)
  show "update_breathing_regularity
       \<lparr> window_size = 10, force_history = [0, 0, 0, 0, 0, 0, 0, 0, 0, 0],
         resp_rate_history =
           [31 * 2 ^ 1019, - (31 * 2 ^ 1019), 31 * 2 ^ 1019, - (31 * 2 ^ 1019),
            31 * 2 ^ 1019, - (31 * 2 ^ 1019), 31 * 2 ^ 1019, - (31 * 2 ^ 1019),
            31 * 2 ^ 1019, - (31 * 2 ^ 1019)],
         timestamps = [0, 1, 2, 3, 4, 5, 6, 7, 8, 9],
         last_breath_time = 0, breath_count = 0, session_start = 0,
         breathing_depth = 0, breathing_regularity = 1, breathing_intensity = 0 \<rparr> =
     \<lparr> window_size = 10, force_history = [0, 0, 0, 0, 0, 0, 0, 0, 0, 0],
       resp_rate_history =
         [31 * 2 ^ 1019, - (31 * 2 ^ 1019), 31 * 2 ^ 1019, - (31 * 2 ^ 1019),
          31 * 2 ^ 1019, - (31 * 2 ^ 1019), 31 * 2 ^ 1019, - (31 * 2 ^ 1019),
          31 * 2 ^ 1019, - (31 * 2 ^ 1019)],
       timestamps = [0, 1, 2, 3, 4, 5, 6, 7, 8, 9],
       last_breath_time = 0, breath_count = 0, session_start = 0,
       breathing_depth = 0, breathing_regularity = 0, breathing_intensity = 0 \<rparr>"
    using stdev_swing by (simp add: update_breathing_regularity_def)
qed

text \<open>
  Claim C10, amended. When the resp\_rate buffer holds at least 10 finite values, the
  computation of the standard deviation never fails for want of values: it fails only when
  the rounded standard deviation is beyond the range of a float, with OverflowError, and
  then the handler of \<^verbatim>\<open>_update_breathing_regularity\<close> sets the regularity to 0. In every
  other case it returns \<open>sd\<close> and the regularity is set to \<open>max 0 (1 - sd / 10)\<close>. An
  analyzer reached by calls of \<^verbatim>\<open>add_sample\<close> with such a buffer has the regularity of
  the case that applies.
\<close>

theorem regularity_stdev_failure:
  assumes "10 \<le> length (resp_rate_history st)"
  shows "(round_double (sample_deviation (resp_rate_history st)) < 2 ^ 1024 \<longrightarrow>
            stdev (resp_rate_history st) =
              Inr (round_double (sample_deviation (resp_rate_history st)))
            \<and> update_breathing_regularity st =
                st\<lparr>breathing_regularity :=
                     max 0 (1 - round_double (sample_deviation (resp_rate_history st)) / 10)\<rparr>)
       \<and> (2 ^ 1024 \<le> round_double (sample_deviation (resp_rate_history st)) \<longrightarrow>
            stdev (resp_rate_history st) = Inl OverflowError
            \<and> update_breathing_regularity st = st\<lparr>breathing_regularity := 0\<rparr>)
       \<and> stdev (resp_rate_history st) \<noteq> Inl StatisticsError
       \<and> (\<forall>ws t0 ss. add_samples (init_analyzer ws t0) ss = Inr st \<longrightarrow>
             breathing_regularity st =
               (case stdev (resp_rate_history st) of
                  Inr sd \<Rightarrow> max 0 (1 - sd / 10)
                | Inl e \<Rightarrow> 0))"
proof -
  from assms have two: "2 \<le> length (resp_rate_history st)" by simp
  note sd = stdev_enough [OF two]
  have reach: "breathing_regularity st =
               (case stdev (resp_rate_history st) of
                  Inr sd \<Rightarrow> max 0 (1 - sd / 10)
                | Inl e \<Rightarrow> 0)"
    if "add_samples (init_analyzer ws t0) ss = Inr st" for ws t0 ss
    using add_samples_depth_regularity [OF that] assms by simp
  from assms sd reach show ?thesis
    by (simp add: update_breathing_regularity_def)
qed

text \<open>
  Ten samples of constant rate in a window of 10, and ten samples of swinging rate of
  large magnitude.
\<close>

theorem regularity_stdev_failure_witness:
  "(add_samples (init_analyzer 10 0) ramp10 =
      Inr \<lparr> window_size = 10, force_history = [0, 1, 2, 3, 4, 5, 6, 7, 8, 9],
            resp_rate_history = [12, 12, 12, 12, 12, 12, 12, 12, 12, 12],
            timestamps = [0, 1, 2, 3, 4, 5, 6, 7, 8, 9],
            last_breath_time = 0, breath_count = 0, session_start = 0,
            breathing_depth = 9, breathing_regularity = 1, breathing_intensity = 9 / 2 \<rparr>
    \<and> 10 \<le> length [12, 12, 12, 12, 12, 12, 12, 12, 12, 12 :: real]
    \<and> round_double (sample_deviation [12, 12, 12, 12, 12, 12, 12, 12, 12, 12]) < 2 ^ 1024
    \<and> stdev [12, 12, 12, 12, 12, 12, 12, 12, 12, 12] = Inr 0
    \<and> max 0 (1 - 0 / 10) = (1 :: real))
   \<and> (add_samples (init_analyzer 10 0) swing10 =
      Inr \<lparr> window_size = 10, force_history = [0, 0, 0, 0, 0, 0, 0, 0, 0, 0],
            resp_rate_history =
              [31 * 2 ^ 1019, - (31 * 2 ^ 1019), 31 * 2 ^ 1019, - (31 * 2 ^ 1019),
               31 * 2 ^ 1019, - (31 * 2 ^ 1019), 31 * 2 ^ 1019, - (31 * 2 ^ 1019),
               31 * 2 ^ 1019, - (31 * 2 ^ 1019)],
            timestamps = [0, 1, 2, 3, 4, 5, 6, 7, 8, 9],
            last_breath_time = 0, breath_count = 0, session_start = 0,
            breathing_depth = 0, breathing_regularity = 0, breathing_intensity = 0 \<rparr>
    \<and> 2 ^ 1024 \<le> round_double (sample_deviation
          [31 * 2 ^ 1019, - (31 * 2 ^ 1019), 31 * 2 ^ 1019, - (31 * 2 ^ 1019),
           31 * 2 ^ 1019, - (31 * 2 ^ 1019), 31 * 2 ^ 1019, - (31 * 2 ^ 1019),
           31 * 2 ^ 1019, - (31 * 2 ^ 1019)])
    \<and> stdev [31 * 2 ^ 1019, - (31 * 2 ^ 1019), 31 * 2 ^ 1019, - (31 * 2 ^ 1019),
              31 * 2 ^ 1019, - (31 * 2 ^ 1019), 31 * 2 ^ 1019, - (31 * 2 ^ 1019),
              31 * 2 ^ 1019, - (31 * 2 ^ 1019)] = Inl OverflowError)"
proof (rule conjI)
  let ?xs = "[12, 12, 12, 12, 12, 12, 12, 12, 12, 12] :: real list"
  let ?st = "\<lparr> window_size = 10, force_history = [0, 1, 2, 3, 4, 5, 6, 7, 8, 9],
            resp_rate_history = ?xs,
            timestamps = [0, 1, 2, 3, 4, 5, 6, 7, 8, 9],
            last_breath_time = 0, breath_count = 0, session_start = 0,
            breathing_depth = 9, breathing_regularity = 1, breathing_intensity = 9 / 2 \<rparr>"
  have run: "add_samples (init_analyzer 10 0) ramp10 = Inr ?st"
    using stdev_constant by (simp add: ramp10_def analyzer_defs)
  have len: "10 \<le> length (resp_rate_history ?st)" by simp
  have rd: "round_double (sample_deviation ?xs) < 2 ^ 1024"
    by (simp add: sample_deviation_def round_double_zero)
  from regularity_stdev_failure [OF len] rd
  have "stdev ?xs = Inr (round_double (sample_deviation ?xs))" by simp
  then have sd: "stdev ?xs = Inr 0" by (simp add: stdev_constant)
  from run len rd sd show "add_samples (init_analyzer 10 0) ramp10 = Inr ?st
    \<and> 10 \<le> length ?xs
    \<and> round_double (sample_deviation ?xs) < 2 ^ 1024
    \<and> stdev ?xs = Inr 0
    \<and> max 0 (1 - 0 / 10) = (1 :: real)"
    by simp
next
  let ?xs = "[31 * 2 ^ 1019, - (31 * 2 ^ 1019), 31 * 2 ^ 1019, - (31 * 2 ^ 1019),
               31 * 2 ^ 1019, - (31 * 2 ^ 1019), 31 * 2 ^ 1019, - (31 * 2 ^ 1019),
               31 * 2 ^ 1019, - (31 * 2 ^ 1019)] :: real list"
  let ?st = "\<lparr> window_size = 10, force_history = [0, 0, 0, 0, 0, 0, 0, 0, 0, 0],
            resp_rate_history = ?xs,
            timestamps = [0, 1, 2, 3, 4, 5, 6, 7, 8, 9],
            last_breath_time = 0, breath_count = 0, session_start = 0,
            breathing_depth = 0, breathing_regularity = 0, breathing_intensity = 0 \<rparr>"
  have run: "add_samples (init_analyzer 10 0) swing10 = Inr ?st"
    using stdev_swing by (simp add: swing10_def analyzer_defs)
  have len: "10 \<le> length (resp_rate_history ?st)" by simp
  have two: "2 \<le> length ?xs" by simp
  have over: "2 ^ 1024 \<le> round_double (sample_deviation ?xs)"
    using stdev_swing stdev_enough [OF two] by (simp split: if_splits)
  from regularity_stdev_failure [OF len] over
  have sd: "stdev ?xs = Inl OverflowError" by simp
  from run over sd show "add_samples (init_analyzer 10 0) swing10 = Inr ?st
    \<and> 2 ^ 1024 \<le> round_double (sample_deviation ?xs)
    \<and> stdev ?xs = Inl OverflowError"
    by simp
qed

end
